theory Spec2Isabelle
  imports Complex_Main "HOL-Library.Multiset"
begin

section \<open>Common conventions\<close>

text \<open>
  Exceptions are values of the type \<open>error\<close>; a function that can raise returns
  \<open>error + 'a\<close> with \<open>Inl\<close> for the exception.
\<close>

datatype error =
    RuntimeError
  | ValidationError
  | AttributeError
  | IndexError
  | ValueError
  | ImportError
  | IOError
  | PicklingError
  | UnpicklingError
  | DBError
  | ZeroDivisionError
  | TypeError

subsection \<open>Python floats\<close>

text \<open>
  A Python float is a double: a real number with a 53-bit significand. \<open>fl\<close> rounds a
  real to the nearest double, ties to the even significand; the exponent range is not
  bounded (no overflow to infinity, no subnormal numbers, no NaN). The arithmetic of
  the language rounds the exact result: \<open>a + b\<close> on floats is \<open>fadd a b\<close>, and so on.
  Comparisons of floats are comparisons of reals.
\<close>

definition round_half_even :: "real \<Rightarrow> int" where
  "round_half_even x =
     (let f = \<lfloor>x\<rfloor>; d = x - of_int f
      in if d < 1 / 2 then f
         else if 1 / 2 < d then f + 1
         else if even f then f else f + 1)"

definition fl :: "real \<Rightarrow> real" where
  "fl x =
     (if x = 0 then 0
      else let u = 2 powr (of_int \<lfloor>log 2 \<bar>x\<bar>\<rfloor> - 52)
           in of_int (round_half_even (x / u)) * u)"

definition fadd :: "real \<Rightarrow> real \<Rightarrow> real" where
  "fadd a b = fl (a + b)"

definition fsub :: "real \<Rightarrow> real \<Rightarrow> real" where
  "fsub a b = fl (a - b)"

definition fmul :: "real \<Rightarrow> real \<Rightarrow> real" where
  "fmul a b = fl (a * b)"

definition fdiv :: "real \<Rightarrow> real \<Rightarrow> real" where
  "fdiv a b = fl (a / b)"

text \<open>
  A decimal literal of the source: \<open>dec 7 10\<close> is the double written \<open>0.7\<close>,
  \<open>dec 35 100\<close> is \<open>0.35\<close>. Integers and halves are written as they are (they are
  doubles).
\<close>

definition dec :: "int \<Rightarrow> int \<Rightarrow> real" where
  "dec m d = fl (of_int m / of_int d)"

text \<open>
  \<open>round(x, n)\<close> on a float: the exact value of \<open>x\<close> is rounded to \<open>n\<close> decimals,
  ties to the even neighbour, and the result is the nearest double. \<open>round(x)\<close>
  without digits is the integer \<open>round_half_even x\<close>.
\<close>

definition round_decimal :: "real \<Rightarrow> nat \<Rightarrow> real" where
  "round_decimal x n = of_int (round_half_even (x * 10 ^ n)) / 10 ^ n"

definition py_round :: "real \<Rightarrow> nat \<Rightarrow> real" where
  "py_round x n = fl (round_decimal x n)"

text \<open>
  The numeric library routines the code calls, as parameters: \<open>np.mean\<close> and
  \<open>np.std\<close> on a non-empty list, the slope of \<open>np.polyfit(arange(len(ys)), ys, 1)\<close>,
  the sum and the mean of a frame column, and the built-in \<open>sum\<close> of a list of floats.
\<close>

record numerics =
  np_mean :: "real list \<Rightarrow> real"
  np_std :: "real list \<Rightarrow> real"
  polyfit_slope :: "real list \<Rightarrow> real"
  series_sum :: "real list \<Rightarrow> real"
  series_mean :: "real list \<Rightarrow> real"
  py_sum :: "real list \<Rightarrow> real"

text \<open>
  A feature dictionary maps feature names to numbers; \<open>features.get(k, d)\<close> is
  \<open>get_feature\<close>.
\<close>

type_synonym features = "string \<rightharpoonup> real"

definition get_feature :: "features \<Rightarrow> string \<Rightarrow> real \<Rightarrow> real" where
  "get_feature f k d = (case f k of None \<Rightarrow> d | Some v \<Rightarrow> v)"

subsection \<open>Fitted objects, pickled files, the log\<close>

text \<open>
  What a Prophet forecast gives for one day, and the frame \<open>prophet_model.predict\<close>
  returns (history rows followed by the future rows).
\<close>

record forecast_row =
  yhat :: real
  yhat_lower :: real
  yhat_upper :: real
  trend :: real
  weekly :: real

record forecast =
  rows :: "forecast_row list"
  has_weekly :: bool

text \<open>
  The entry \<open>_xgb_models[key]\<close>: the fitted regressor (it may raise on a feature
  row; a feature value \<open>None\<close> is NaN), the feature columns, and the \<open>y\<close> column
  of the kept history frame.
\<close>

record xgb_data =
  xgb_model :: "real option list \<Rightarrow> error + real"
  feature_cols :: "string list"
  history_y :: "real list"

text \<open>
  Python objects that are pickled and unpickled: a fitted classifier or regressor
  (scaled vector to raw score), a fitted scaler, a fitted Prophet model (periods to
  forecast frame), and the XGBoost entry. Each may raise on its input (scikit-learn
  validates the vector it is given). Python does not check which kind comes out of a
  file; using an object of the wrong kind raises.
\<close>

datatype obj =
    Model "real list \<Rightarrow> error + real"
  | Scaler "real list \<Rightarrow> error + real list"
  | ProphetModel "int \<Rightarrow> error + forecast"
  | XgbData xgb_data

definition transform :: "obj \<Rightarrow> real list \<Rightarrow> error + real list" where
  "transform sc v = (case sc of Scaler f \<Rightarrow> f v | _ \<Rightarrow> Inl AttributeError)"

definition model_predict :: "obj \<Rightarrow> real list \<Rightarrow> error + real" where
  "model_predict m v = (case m of Model f \<Rightarrow> f v | _ \<Rightarrow> Inl AttributeError)"

text \<open>
  The model directory: the files in it (a pickle of an object, or bytes that do not
  unpickle), whether \<open>mkdir\<close> succeeds, which paths can be opened for writing, and on
  which paths a dump runs to its end.
\<close>

datatype pkl_file = Pickle obj | Corrupt

record filesystem =
  files :: "string \<rightharpoonup> pkl_file"
  mkdir_ok :: bool
  can_open :: "string \<Rightarrow> bool"
  can_dump :: "string \<Rightarrow> bool"

definition exists_file :: "filesystem \<Rightarrow> string \<Rightarrow> bool" where
  "exists_file fs p = (files fs p \<noteq> None)"

text \<open>\<open>open(p, "rb")\<close> followed by \<open>pickle.load\<close>.\<close>

definition pickle_load :: "filesystem \<Rightarrow> string \<Rightarrow> error + obj" where
  "pickle_load fs p =
     (case files fs p of
        None \<Rightarrow> Inl IOError
      | Some Corrupt \<Rightarrow> Inl UnpicklingError
      | Some (Pickle x) \<Rightarrow> Inr x)"

text \<open>
  \<open>open(p, "wb")\<close> followed by \<open>pickle.dump\<close>: the new directory content and the
  exception raised, if any. Opening truncates the file, so a dump that fails leaves a
  file that does not unpickle.
\<close>

definition pickle_dump :: "filesystem \<Rightarrow> string \<Rightarrow> obj \<Rightarrow> filesystem \<times> error option" where
  "pickle_dump fs p x =
     (if \<not> can_open fs p then (fs, Some IOError)
      else if \<not> can_dump fs p then (fs\<lparr>files := (files fs)(p \<mapsto> Corrupt)\<rparr>, Some PicklingError)
      else (fs\<lparr>files := (files fs)(p \<mapsto> Pickle x)\<rparr>, None))"

text \<open>\<open>if obj is not None: dump\<close>.\<close>

definition dump_if_present :: "filesystem \<Rightarrow> string \<Rightarrow> obj option \<Rightarrow> filesystem \<times> error option" where
  "dump_if_present fs p x = (case x of None \<Rightarrow> (fs, None) | Some v \<Rightarrow> pickle_dump fs p v)"

definition mkdir :: "filesystem \<Rightarrow> error + filesystem" where
  "mkdir fs = (if mkdir_ok fs then Inr fs else Inl IOError)"

text \<open>Log records, in the order they are emitted.\<close>

datatype log = Debug string | Info string | Warning string "string list"

text \<open>
  The trained state of a scoring engine (\<open>self._model\<close>, \<open>self._scaler\<close>), each
  possibly \<open>None\<close>.
\<close>

record trained_state =
  model :: "obj option"
  scaler :: "obj option"

definition join_path :: "string \<Rightarrow> string \<Rightarrow> string" where
  "join_path dir name = dir @ ''/'' @ name"

text \<open>
  \<open>_save_model\<close> and \<open>_load_model\<close> of the stock-out, credit and attrition engines
  are the same code up to the two file names and the messages. Every exception inside
  them is caught and logged, so they return normally: the new model directory (for
  save) or the new trained state (for load), and the log records.
\<close>

definition save_pair ::
  "string \<Rightarrow> string \<Rightarrow> string \<Rightarrow> string \<Rightarrow> filesystem \<Rightarrow> trained_state \<Rightarrow> filesystem \<times> log list" where
  "save_pair model_path scaler_path failed_msg dir fs st =
     (case mkdir fs of
        Inl e \<Rightarrow> (fs, [Warning failed_msg []])
      | Inr fs1 \<Rightarrow>
          (case dump_if_present fs1 (join_path dir model_path) (model st) of
             (fs2, Some e) \<Rightarrow> (fs2, [Warning failed_msg []])
           | (fs2, None) \<Rightarrow>
               (case dump_if_present fs2 (join_path dir scaler_path) (scaler st) of
                  (fs3, Some e) \<Rightarrow> (fs3, [Warning failed_msg []])
                | (fs3, None) \<Rightarrow> (fs3, []))))"

definition load_pair ::
  "string \<Rightarrow> string \<Rightarrow> string \<Rightarrow> string \<Rightarrow> string \<Rightarrow> filesystem \<Rightarrow> trained_state
     \<Rightarrow> trained_state \<times> log list" where
  "load_pair model_path scaler_path loaded_msg failed_msg dir fs st =
     (if exists_file fs (join_path dir model_path) \<and> exists_file fs (join_path dir scaler_path)
      then (case pickle_load fs (join_path dir model_path) of
              Inl e \<Rightarrow> (st, [Debug failed_msg])
            | Inr m \<Rightarrow>
                (case pickle_load fs (join_path dir scaler_path) of
                   Inl e \<Rightarrow> (st\<lparr>model := Some m\<rparr>, [Debug failed_msg])
                 | Inr sc \<Rightarrow> (st\<lparr>model := Some m, scaler := Some sc\<rparr>, [Info loaded_msg])))
      else (st, []))"

section \<open>Stock-out prediction (app/ml/stockout.py)\<close>

datatype stockout_factor =
    ZeroCurrentStock
  | StockCoversOnly real real
  | HighConsumptionVariance
  | ConsumptionTrendIncreasing
  | NoRestockIn real

record StockoutPrediction =
  store_id :: string
  product_id :: string
  store_name :: string
  product_name :: string
  probability :: real
  days_until_stockout :: real
  current_stock :: real
  avg_daily_consumption :: real
  lead_time_days :: real
  suggested_reorder_qty :: real
  risk_level :: string
  factors :: "stockout_factor list"

record StockoutScanResult =
  company_id :: string
  total_scanned :: nat
  alerts :: "StockoutPrediction list"

record Settings =
  STOCKOUT_THRESHOLD :: real
  STOCKOUT_SCAN_BATCH_SIZE :: int

text \<open>The defaults of app/core/config.py.\<close>

definition default_settings :: Settings where
  "default_settings = \<lparr>STOCKOUT_THRESHOLD = dec 7 10, STOCKOUT_SCAN_BATCH_SIZE = 100\<rparr>"

definition FEATURE_NAMES :: "string list" where
  "FEATURE_NAMES =
     [''current_stock'', ''avg_daily_consumption'', ''consumption_variance'',
      ''lead_time_days'', ''day_of_week'', ''day_of_month'', ''month'', ''is_weekend'',
      ''days_since_last_restock'', ''order_frequency_30d'',
      ''stock_to_consumption_ratio'', ''trend_slope'']"

text \<open>
  The database session as the stock-out predictor uses it. Every query can raise.
  \<^item> the active store-product pairs of a company (with the row limit);
  \<^item> the names of a store and a product, if the row exists;
  \<^item> the daily consumption rows of a pair: the quantity, and the age of the sale
    date in days (the date arithmetic of the source, which can raise);
  \<^item> the latest inventory row of a pair, if any: the stock (or NULL) and, when there
    is a restock time, the days since (the date arithmetic can raise).
\<close>

record stock_db =
  q_combos :: "string \<Rightarrow> int \<Rightarrow> error + (string \<times> string) list"
  q_names :: "string \<Rightarrow> string \<Rightarrow> error + (string \<times> string) option"
  q_consumption :: "string \<Rightarrow> string \<Rightarrow> error + (real \<times> (error + int)) list"
  q_inventory :: "string \<Rightarrow> string \<Rightarrow> error + (real option \<times> (error + int) option) option"

text \<open>\<open>datetime.now\<close>: the weekday (Monday is 0), the day of the month, the month.\<close>

record calendar_day =
  weekday :: nat
  day_of_month :: nat
  month_of_year :: nat

record StockoutPredictor =
  sp_db :: "stock_db option"
  sp_settings :: Settings
  sp_state :: trained_state
  sp_today :: calendar_day
  sp_numerics :: numerics

definition zero_features :: features where
  "zero_features = map_of (map (\<lambda>f. (f, 0)) FEATURE_NAMES)"

text \<open>
  \<open>sum(1 for r in rows if age(r) <= 30)\<close>: the rows are visited in order and the
  first date arithmetic that raises ends the count.
\<close>

fun count_recent :: "(real \<times> (error + int)) list \<Rightarrow> error + nat" where
  "count_recent [] = Inr 0"
| "count_recent ((q, Inl e) # rest) = Inl e"
| "count_recent ((q, Inr age) # rest) =
     (case count_recent rest of
        Inl e \<Rightarrow> Inl e
      | Inr n \<Rightarrow> Inr (if age \<le> 30 then Suc n else n))"

text \<open>
  The consumption block of \<open>_fetch_features\<close> (lines 352-389): the features it has
  set when it ends, and whether it ended in its \<open>except\<close> clause.
\<close>

definition consumption_block ::
  "numerics \<Rightarrow> error + (real \<times> (error + int)) list \<Rightarrow> features \<Rightarrow> features \<times> bool" where
  "consumption_block lib res f =
     (case res of
        Inl e \<Rightarrow> (f, True)
      | Inr consumption_rows \<Rightarrow>
          if consumption_rows = [] then (f, False)
          else
            let daily_qtys = map fst consumption_rows;
                f1 = f(''avg_daily_consumption'' \<mapsto> np_mean lib daily_qtys,
                       ''consumption_variance'' \<mapsto> np_std lib daily_qtys);
                f2 = (if length daily_qtys > 1
                      then f1(''trend_slope'' \<mapsto> polyfit_slope lib daily_qtys) else f1)
            in (case count_recent consumption_rows of
                  Inl e \<Rightarrow> (f2, True)
                | Inr recent_orders \<Rightarrow> (f2(''order_frequency_30d'' \<mapsto> real recent_orders), False)))"

text \<open>The inventory block (lines 391-412); its \<open>except\<close> clause passes.\<close>

definition inventory_block ::
  "error + (real option \<times> (error + int) option) option \<Rightarrow> features \<Rightarrow> features" where
  "inventory_block res f =
     (case res of
        Inr (Some (stock, restock)) \<Rightarrow>
          let f1 = f(''current_stock'' \<mapsto> (case stock of None \<Rightarrow> 0 | Some v \<Rightarrow> v))
          in (case restock of
                Some (Inr days) \<Rightarrow> f1(''days_since_last_restock'' \<mapsto> of_int days)
              | _ \<Rightarrow> f1)
      | _ \<Rightarrow> f)"

text \<open>
  \<open>_fetch_features\<close>: the two names, the feature dictionary, and the log. No query
  failure leaves the function: each block catches its exceptions. Without a database
  every declared feature is 0.0.
\<close>

definition fetch_features ::
  "StockoutPredictor \<Rightarrow> string \<Rightarrow> string \<Rightarrow> string option \<Rightarrow> (string \<times> string \<times> features) \<times> log list" where
  "fetch_features self sid pid cid =
     (case sp_db self of
        None \<Rightarrow> (('''', '''', zero_features), [])
      | Some d \<Rightarrow>
          let now = sp_today self;
              f0 = zero_features
                     (''day_of_week'' \<mapsto> real (weekday now), ''day_of_month'' \<mapsto> real (day_of_month now),
                      ''month'' \<mapsto> real (month_of_year now),
                      ''is_weekend'' \<mapsto> (if weekday now \<ge> 5 then 1 else 0),
                      ''lead_time_days'' \<mapsto> 3);
              (sname, pname) = (case q_names d sid pid of
                                  Inr (Some names) \<Rightarrow> names
                                | _ \<Rightarrow> ('''', ''''));
              (f1, failed) = consumption_block (sp_numerics self) (q_consumption d sid pid) f0;
              f2 = inventory_block (q_inventory d sid pid) f1;
              avg_daily = get_feature f2 ''avg_daily_consumption'' 0;
              f3 = f2(''stock_to_consumption_ratio'' \<mapsto>
                        (if avg_daily > 0 then fdiv (get_feature f2 ''current_stock'' 0) avg_daily
                         else 999))
          in ((sname, pname, f3),
              if failed then [Warning ''Failed to fetch consumption data for %s/%s.'' [sid, pid]]
              else []))"

text \<open>The rule-based fallback branch of \<open>predict\<close> (lines 191-205).\<close>

definition rule_based_probability :: "real \<Rightarrow> real \<Rightarrow> real \<Rightarrow> real" where
  "rule_based_probability avg_daily cur_stock lead_time =
     (if avg_daily \<le> 0 then dec 1 10
      else if cur_stock \<le> 0 then dec 95 100
      else let days_of_stock = fdiv cur_stock avg_daily
           in if days_of_stock \<le> lead_time then dec 9 10
              else if days_of_stock \<le> fmul lead_time 2 then dec 6 10
              else if days_of_stock \<le> fmul lead_time 3 then dec 3 10
              else dec 1 10)"

definition stockout_risk_level :: "real \<Rightarrow> string" where
  "stockout_risk_level p =
     (if p \<ge> dec 8 10 then ''critical''
      else if p \<ge> dec 6 10 then ''high''
      else if p \<ge> dec 4 10 then ''medium''
      else ''low'')"

definition stockout_factors :: "features \<Rightarrow> real \<Rightarrow> real \<Rightarrow> real \<Rightarrow> real \<Rightarrow> stockout_factor list" where
  "stockout_factors fs cur_stock avg_daily lead_time days_until =
     (if cur_stock \<le> 0 then [ZeroCurrentStock] else [])
     @ (if days_until \<le> lead_time then [StockCoversOnly days_until lead_time] else [])
     @ (if get_feature fs ''consumption_variance'' 0 > fmul avg_daily (1 / 2)
        then [HighConsumptionVariance] else [])
     @ (if get_feature fs ''trend_slope'' 0 > 0 then [ConsumptionTrendIncreasing] else [])
     @ (if get_feature fs ''days_since_last_restock'' 0 > 14
        then [NoRestockIn (get_feature fs ''days_since_last_restock'' 0)] else [])"

text \<open>The trained path: scale the feature vector, then the classifier's probability.\<close>

definition trained_probability :: "obj \<Rightarrow> obj \<Rightarrow> features \<Rightarrow> error + real" where
  "trained_probability m sc fs =
     (case transform sc (map (\<lambda>f. get_feature fs f 0) FEATURE_NAMES) of
        Inl e \<Rightarrow> Inl e
      | Inr scaled \<Rightarrow> model_predict m scaled)"

text \<open>The branch on the trained state (lines 183-205).\<close>

definition compute_probability :: "trained_state \<Rightarrow> features \<Rightarrow> error + real" where
  "compute_probability st fs =
     (case (model st, scaler st) of
        (Some m, Some sc) \<Rightarrow> trained_probability m sc fs
      | _ \<Rightarrow> Inr (rule_based_probability (get_feature fs ''avg_daily_consumption'' 0)
                    (get_feature fs ''current_stock'' 0) (get_feature fs ''lead_time_days'' 3)))"

text \<open>
  The part of \<open>predict\<close> after the features are fetched. The constructor of the
  result validates \<open>0 \<le> probability \<le> 1\<close> (the pydantic field constraint) and raises
  otherwise.
\<close>

definition predict_from ::
  "trained_state \<Rightarrow> string \<Rightarrow> string \<Rightarrow> string \<times> string \<times> features \<Rightarrow> error + StockoutPrediction" where
  "predict_from st sid pid fetched =
     (case fetched of
        (sname, pname, fs) \<Rightarrow>
          (case compute_probability st fs of
             Inl e \<Rightarrow> Inl e
           | Inr prob \<Rightarrow>
               let cur_stock = get_feature fs ''current_stock'' 0;
                   avg_daily = get_feature fs ''avg_daily_consumption'' 0;
                   lead_time = get_feature fs ''lead_time_days'' 3;
                   days_until = (if avg_daily > 0 then fdiv cur_stock avg_daily else 999);
                   safety_stock = fmul (fmul avg_daily lead_time) (3 / 2);
                   suggested_qty = max 0 (fsub (fadd (fmul avg_daily 14) safety_stock) cur_stock);
                   p = py_round prob 3
               in if p < 0 \<or> 1 < p then Inl ValidationError
                  else Inr \<lparr>store_id = sid, product_id = pid, store_name = sname,
                            product_name = pname, probability = p,
                            days_until_stockout = py_round days_until 1,
                            current_stock = py_round cur_stock 1,
                            avg_daily_consumption = py_round avg_daily 2,
                            lead_time_days = lead_time,
                            suggested_reorder_qty = py_round suggested_qty 0,
                            risk_level = stockout_risk_level prob,
                            factors = stockout_factors fs cur_stock avg_daily lead_time
                                        days_until\<rparr>))"

text \<open>\<open>predict\<close>: its result, and the log records it emits.\<close>

definition predict_log :: "StockoutPredictor \<Rightarrow> string \<Rightarrow> string \<Rightarrow> string option \<Rightarrow> log list" where
  "predict_log self sid pid cid = snd (fetch_features self sid pid cid)"

definition predict ::
  "StockoutPredictor \<Rightarrow> string \<Rightarrow> string \<Rightarrow> string option \<Rightarrow> error + StockoutPrediction" where
  "predict self sid pid cid =
     predict_from (sp_state self) sid pid (fst (fetch_features self sid pid cid))"

text \<open>
  The loop of \<open>scan_all\<close> over the pairs: a prediction at or above the threshold is
  appended to the alerts; an exception is caught, a warning naming the pair is logged,
  and the loop goes on.
\<close>

fun scan_loop ::
  "StockoutPredictor \<Rightarrow> string \<Rightarrow> (string \<times> string) list \<Rightarrow> StockoutPrediction list \<times> log list
     \<Rightarrow> StockoutPrediction list \<times> log list" where
  "scan_loop self cid [] (acc, lg) = (acc, lg)"
| "scan_loop self cid ((sid, pid) # combos) (acc, lg) =
     (case predict self sid pid (Some cid) of
        Inr pred \<Rightarrow>
          if probability pred \<ge> STOCKOUT_THRESHOLD (sp_settings self)
          then scan_loop self cid combos (acc @ [pred], lg @ predict_log self sid pid (Some cid))
          else scan_loop self cid combos (acc, lg @ predict_log self sid pid (Some cid))
      | Inl e \<Rightarrow>
          scan_loop self cid combos
            (acc, lg @ predict_log self sid pid (Some cid)
                  @ [Warning ''Stockout prediction failed for store=%s product=%s.'' [sid, pid]]))"

text \<open>
  \<open>scan_all\<close> returns the scan result (or the exception of the pair query, which is
  not caught) and emits log records. The wall-clock fields of the result (duration,
  time of scan) and the closing info record are left out.
  \<open>alerts.sort(key=probability, reverse=True)\<close> is a stable sort on the negated key.
\<close>

definition scan_all :: "StockoutPredictor \<Rightarrow> string \<Rightarrow> (error + StockoutScanResult) \<times> log list" where
  "scan_all self cid =
     (case sp_db self of
        None \<Rightarrow> (Inr \<lparr>company_id = cid, total_scanned = 0, alerts = []\<rparr>, [])
      | Some d \<Rightarrow>
          (case q_combos d cid (STOCKOUT_SCAN_BATCH_SIZE (sp_settings self) * 100) of
             Inl e \<Rightarrow> (Inl e, [])
           | Inr combos \<Rightarrow>
               (let (found, lg) = scan_loop self cid combos ([], [])
                in (Inr \<lparr>company_id = cid, total_scanned = length combos,
                         alerts = sort_key (\<lambda>a. - probability a) found\<rparr>, lg))))"

text \<open>
  What the loop does with one pair: the alert it appends, if any, and the records it
  logs.
\<close>

definition alert_of :: "StockoutPredictor \<Rightarrow> string \<Rightarrow> string \<times> string \<Rightarrow> StockoutPrediction option" where
  "alert_of self cid c =
     (case predict self (fst c) (snd c) (Some cid) of
        Inr pred \<Rightarrow>
          if probability pred \<ge> STOCKOUT_THRESHOLD (sp_settings self) then Some pred else None
      | Inl e \<Rightarrow> None)"

definition records_of :: "StockoutPredictor \<Rightarrow> string \<Rightarrow> string \<times> string \<Rightarrow> log list" where
  "records_of self cid c =
     predict_log self (fst c) (snd c) (Some cid)
     @ (case predict self (fst c) (snd c) (Some cid) of
          Inr pred \<Rightarrow> []
        | Inl e \<Rightarrow> [Warning ''Stockout prediction failed for store=%s product=%s.'' [fst c, snd c]])"

definition stockout_save_model :: "string \<Rightarrow> filesystem \<Rightarrow> trained_state \<Rightarrow> filesystem \<times> log list" where
  "stockout_save_model =
     save_pair ''stockout_rf.pkl'' ''stockout_scaler.pkl'' ''Failed to save stockout model.''"

definition stockout_load_model :: "string \<Rightarrow> filesystem \<Rightarrow> trained_state \<Rightarrow> trained_state \<times> log list" where
  "stockout_load_model =
     load_pair ''stockout_rf.pkl'' ''stockout_scaler.pkl'' ''Stockout model loaded from disk.''
       ''No pre-trained stockout model found.''"

section \<open>Credit scoring (app/ml/credit_score.py)\<close>

definition credit_save_model :: "string \<Rightarrow> filesystem \<Rightarrow> trained_state \<Rightarrow> filesystem \<times> log list" where
  "credit_save_model =
     save_pair ''credit_xgb.pkl'' ''credit_scaler.pkl'' ''Failed to save credit scoring model.''"

definition credit_load_model :: "string \<Rightarrow> filesystem \<Rightarrow> trained_state \<Rightarrow> trained_state \<times> log list" where
  "credit_load_model =
     load_pair ''credit_xgb.pkl'' ''credit_scaler.pkl'' ''Credit scoring model loaded from disk.''
       ''No pre-trained credit scoring model found.''"

definition CREDIT_FEATURE_NAMES :: "string list" where
  "CREDIT_FEATURE_NAMES =
     [''on_time_payment_rate'', ''avg_days_to_pay'', ''max_days_overdue'',
      ''total_orders_90d'', ''order_frequency_monthly'', ''avg_order_value'',
      ''total_revenue_90d'', ''order_trend'', ''bounce_count'', ''relationship_months'',
      ''visit_compliance_rate'', ''msl_compliance_rate'']"

text \<open>The class dictionaries, in insertion order.\<close>

definition TIER_THRESHOLDS :: "(string \<times> int) list" where
  "TIER_THRESHOLDS = [(''A'', 75), (''B'', 55), (''C'', 35), (''D'', 0)]"

definition CREDIT_LIMITS :: "(string \<times> real) list" where
  "CREDIT_LIMITS = [(''A'', 100000), (''B'', 50000), (''C'', 20000), (''D'', 5000)]"

definition PAYMENT_TERMS :: "(string \<times> int) list" where
  "PAYMENT_TERMS = [(''A'', 30), (''B'', 14), (''C'', 7), (''D'', 0)]"

definition dict_get :: "(string \<times> 'a) list \<Rightarrow> string \<Rightarrow> 'a \<Rightarrow> 'a" where
  "dict_get d k dflt = (case map_of d k of None \<Rightarrow> dflt | Some v \<Rightarrow> v)"

record CreditScore =
  store_id_cs :: string
  store_name_cs :: string
  tier :: string
  score :: int
  recommended_credit_limit_inr :: real
  max_payment_terms_days :: int

text \<open>\<open>int(max(0, min(100, round(x))))\<close>.\<close>

definition clip_score :: "real \<Rightarrow> int" where
  "clip_score x = max 0 (min 100 (round_half_even x))"

definition rule_based_score :: "features \<Rightarrow> int" where
  "rule_based_score fs =
     (let s0 = fadd 50 (fmul (fsub (get_feature fs ''on_time_payment_rate'' (1 / 2)) (1 / 2)) 40);
          freq = get_feature fs ''order_frequency_monthly'' 0;
          s1 = (if freq \<ge> 4 then fadd s0 10 else if freq \<ge> 2 then fadd s0 5
                else if freq < 1 then fsub s0 10 else s0);
          aov = get_feature fs ''avg_order_value'' 0;
          s2 = (if aov \<ge> 5000 then fadd s1 10 else if aov \<ge> 2000 then fadd s1 5 else s1);
          max_overdue = get_feature fs ''max_days_overdue'' 0;
          s3 = (if max_overdue > 60 then fsub s2 25 else if max_overdue > 30 then fsub s2 15
                else if max_overdue > 14 then fsub s2 5 else s2);
          s4 = fsub s3 (fmul (get_feature fs ''bounce_count'' 0) 5);
          months = get_feature fs ''relationship_months'' 0;
          s5 = (if months \<ge> 24 then fadd s4 10 else if months \<ge> 12 then fadd s4 5 else s4);
          tr = get_feature fs ''order_trend'' 0;
          s6 = (if tr > 0 then fadd s5 5 else if tr < 0 then fsub s5 5 else s5)
      in clip_score s6)"

text \<open>
  The tier loop of \<open>score\<close>: \<open>tier = "D"\<close>, then the first entry of the table whose
  threshold the score reaches, with \<open>break\<close>.
\<close>

fun tier_loop :: "(string \<times> int) list \<Rightarrow> int \<Rightarrow> string \<Rightarrow> string" where
  "tier_loop [] sc t = t"
| "tier_loop ((t', threshold) # rest) sc t =
     (if sc \<ge> threshold then t' else tier_loop rest sc t)"

definition compute_score :: "trained_state \<Rightarrow> features \<Rightarrow> error + int" where
  "compute_score st fs =
     (case (model st, scaler st) of
        (Some m, Some sc) \<Rightarrow>
          (case transform sc (map (\<lambda>f. get_feature fs f 0) CREDIT_FEATURE_NAMES) of
             Inl e \<Rightarrow> Inl e
           | Inr scaled \<Rightarrow>
               (case model_predict m scaled of
                  Inl e \<Rightarrow> Inl e
                | Inr raw_score \<Rightarrow> Inr (clip_score raw_score)))
      | _ \<Rightarrow> Inr (rule_based_score fs))"

text \<open>
  \<open>score\<close>, given what \<open>_fetch_features\<close> returned for the store: its name and its
  feature dictionary (\<open>_fetch_features\<close> catches the exceptions of its queries). The
  explanation factors are not modelled. The result constructor validates
  \<open>0 \<le> score \<le> 100\<close>.
\<close>

definition credit_score ::
  "trained_state \<Rightarrow> string \<times> features \<Rightarrow> string \<Rightarrow> error + CreditScore" where
  "credit_score st fetched sid =
     (case fetched of
        (sname, fs) \<Rightarrow>
          (case compute_score st fs of
             Inl e \<Rightarrow> Inl e
           | Inr sc \<Rightarrow>
               let t = tier_loop TIER_THRESHOLDS sc ''D''
               in if sc < 0 \<or> 100 < sc then Inl ValidationError
                  else Inr \<lparr>store_id_cs = sid, store_name_cs = sname, tier = t, score = sc,
                            recommended_credit_limit_inr = dict_get CREDIT_LIMITS t 5000,
                            max_payment_terms_days = dict_get PAYMENT_TERMS t 0\<rparr>))"

section \<open>Attrition prediction (app/ml/attrition.py)\<close>

definition attrition_save_model :: "string \<Rightarrow> filesystem \<Rightarrow> trained_state \<Rightarrow> filesystem \<times> log list" where
  "attrition_save_model =
     save_pair ''attrition_lr.pkl'' ''attrition_scaler.pkl'' ''Failed to save attrition model.''"

definition attrition_load_model :: "string \<Rightarrow> filesystem \<Rightarrow> trained_state \<Rightarrow> trained_state \<times> log list" where
  "attrition_load_model =
     load_pair ''attrition_lr.pkl'' ''attrition_scaler.pkl'' ''Attrition model loaded from disk.''
       ''No pre-trained attrition model found.''"

definition ATTRITION_FEATURE_NAMES :: "string list" where
  "ATTRITION_FEATURE_NAMES =
     [''days_since_last_order'', ''days_since_last_visit'', ''order_frequency_30d'',
      ''order_frequency_60d'', ''order_frequency_90d'', ''frequency_trend'',
      ''avg_order_value_30d'', ''avg_order_value_90d'', ''aov_trend'', ''total_revenue_90d'',
      ''msl_compliance_rate'', ''visit_count_30d'', ''task_completion_rate'',
      ''credit_tier_numeric'', ''relationship_months'', ''complaints_30d'']"

record AttritionPrediction =
  store_id_ap :: string
  store_name_ap :: string
  churn_probability :: real
  risk_level_ap :: string

definition rule_based_churn :: "features \<Rightarrow> real" where
  "rule_based_churn fs =
     (let s0 = dec 2 10;
          days_since_order = get_feature fs ''days_since_last_order'' 0;
          s1 = (if days_since_order > 30 then fadd s0 (dec 3 10)
                else if days_since_order > 14 then fadd s0 (dec 15 100)
                else if days_since_order > 7 then fadd s0 (dec 5 100) else s0);
          freq_trend = get_feature fs ''frequency_trend'' 1;
          s2 = (if freq_trend < 1 / 2 then fadd s1 (dec 2 10)
                else if freq_trend < dec 8 10 then fadd s1 (dec 1 10) else s1);
          aov_trend = get_feature fs ''aov_trend'' 1;
          s3 = (if aov_trend < dec 7 10 then fadd s2 (dec 15 100) else s2);
          s4 = (if get_feature fs ''visit_count_30d'' 0 = 0 then fadd s3 (dec 1 10) else s3)
      in min 1 (max 0 s4))"

definition compute_churn_prob :: "trained_state \<Rightarrow> features \<Rightarrow> error + real" where
  "compute_churn_prob st fs =
     (case (model st, scaler st) of
        (Some m, Some sc) \<Rightarrow>
          (case transform sc (map (\<lambda>f. get_feature fs f 0) ATTRITION_FEATURE_NAMES) of
             Inl e \<Rightarrow> Inl e
           | Inr scaled \<Rightarrow> model_predict m scaled)
      | _ \<Rightarrow> Inr (rule_based_churn fs))"

text \<open>The risk-level chain of \<open>predict\<close> (lines 157-165).\<close>

definition churn_risk_level :: "real \<Rightarrow> string" where
  "churn_risk_level churn_prob =
     (if churn_prob \<ge> dec 8 10 then ''critical''
      else if churn_prob \<ge> dec 6 10 then ''high''
      else if churn_prob \<ge> dec 35 100 then ''medium''
      else ''low'')"

text \<open>
  \<open>predict\<close>, given what \<open>_fetch_features\<close> returned (it catches the exceptions of
  its queries). The factor and action lists are not modelled. The result constructor
  validates \<open>0 \<le> churn_probability \<le> 1\<close>.
\<close>

definition attrition_predict ::
  "trained_state \<Rightarrow> string \<times> features \<Rightarrow> string \<Rightarrow> error + AttritionPrediction" where
  "attrition_predict st fetched sid =
     (case fetched of
        (sname, fs) \<Rightarrow>
          (case compute_churn_prob st fs of
             Inl e \<Rightarrow> Inl e
           | Inr churn_prob \<Rightarrow>
               let p = py_round churn_prob 3
               in if p < 0 \<or> 1 < p then Inl ValidationError
                  else Inr \<lparr>store_id_ap = sid, store_name_ap = sname, churn_probability = p,
                            risk_level_ap = churn_risk_level churn_prob\<rparr>))"

section \<open>Demand forecasting (app/ml/demand_forecast.py)\<close>

record DemandPrediction =
  store_id_dp :: string
  product_id_dp :: string
  horizon_days :: int
  predicted_qty :: real
  lower_bound :: real
  upper_bound :: real
  confidence :: real
  trend_label :: string
  seasonality_component :: "real option"
  model_version :: string

definition PROPHET_WEIGHT :: real where
  "PROPHET_WEIGHT = dec 6 10"

definition XGBOOST_WEIGHT :: real where
  "XGBOOST_WEIGHT = dec 4 10"

text \<open>
  A history frame: one row per day, the date (as a day number) and the quantity, no
  missing values.
\<close>

type_synonym history = "(int \<times> real) list"

text \<open>
  The database session as the forecaster uses it: the 180-day history query and the
  average-daily query of the heuristic (no row, or a row whose value may be NULL).
\<close>

record demand_db =
  q_history :: "string \<Rightarrow> string \<Rightarrow> error + history"
  q_avg_daily :: "string \<Rightarrow> string \<Rightarrow> error + real option option"

text \<open>
  The forecaster: its database, the two in-memory model dictionaries, the model
  directory and its content, the log, and the external collaborators:
  \<^item> the outcome of the two imports at the top of \<open>train\<close> (\<open>prophet\<close>, \<open>xgboost\<close>):
    the exception raised, if any;
  \<^item> the Prophet fit on the sorted frame, and the XGBoost fit on the rows that
    survive \<open>dropna\<close>, which returns the fitted regressor (each may raise);
  \<^item> the calendar features of the day \<open>d\<close> days from now;
  \<^item> the numeric library.
  A feature value \<open>None\<close> is NaN.
\<close>

record DemandForecaster =
  df_db :: "demand_db option"
  prophet_models :: "string \<rightharpoonup> obj"
  xgb_models :: "string \<rightharpoonup> obj"
  model_dir :: string
  disk :: filesystem
  logged :: "log list"
  import_libs :: "error option"
  fit_prophet :: "history \<Rightarrow> error + obj"
  fit_xgb :: "history \<Rightarrow> error + (real option list \<Rightarrow> error + real)"
  calendar :: "nat \<Rightarrow> (string \<times> real option) list"
  df_numerics :: numerics

definition model_key :: "string \<Rightarrow> string \<Rightarrow> string" where
  "model_key sid pid = sid @ ''_'' @ pid"

definition emit :: "log \<Rightarrow> DemandForecaster \<Rightarrow> DemandForecaster" where
  "emit l self = self\<lparr>logged := logged self @ [l]\<rparr>"

text \<open>
  \<open>_save_model\<close>: an exception at any point is caught and logged; what was written
  before it stays on disk, and so does the file a failed dump leaves.
\<close>

definition save_model :: "DemandForecaster \<Rightarrow> string \<Rightarrow> DemandForecaster" where
  "save_model self key =
     (let failed = Warning ''Failed to save models for %s.'' [key]
      in case mkdir (disk self) of
           Inl e \<Rightarrow> emit failed self
         | Inr fs1 \<Rightarrow>
             (case dump_if_present fs1 (join_path (model_dir self) (key @ ''_prophet.pkl''))
                     (prophet_models self key) of
                (fs2, Some e) \<Rightarrow> emit failed (self\<lparr>disk := fs2\<rparr>)
              | (fs2, None) \<Rightarrow>
                  (case dump_if_present fs2 (join_path (model_dir self) (key @ ''_xgb.pkl''))
                          (xgb_models self key) of
                     (fs3, Some e) \<Rightarrow> emit failed (self\<lparr>disk := fs3\<rparr>)
                   | (fs3, None) \<Rightarrow> emit (Debug ''Saved models for %s.'') (self\<lparr>disk := fs3\<rparr>))))"

text \<open>
  \<open>_load_model\<close>: each of the two files is loaded if it exists, independently of the
  other; an exception at any point is caught and logged, what was installed stays.
\<close>

definition load_model :: "DemandForecaster \<Rightarrow> string \<Rightarrow> DemandForecaster" where
  "load_model self key =
     (let prophet_path = join_path (model_dir self) (key @ ''_prophet.pkl'');
          xgb_path = join_path (model_dir self) (key @ ''_xgb.pkl'');
          failed = Warning ''Failed to load models for %s.'' [key]
      in case (if exists_file (disk self) prophet_path
               then (case pickle_load (disk self) prophet_path of
                       Inl e \<Rightarrow> Inl e
                     | Inr m \<Rightarrow> Inr (self\<lparr>prophet_models := (prophet_models self)(key \<mapsto> m)\<rparr>))
               else Inr self) of
           Inl e \<Rightarrow> emit failed self
         | Inr s1 \<Rightarrow>
             (case (if exists_file (disk s1) xgb_path
                    then (case pickle_load (disk s1) xgb_path of
                            Inl e \<Rightarrow> Inl e
                          | Inr x \<Rightarrow> Inr (s1\<lparr>xgb_models := (xgb_models s1)(key \<mapsto> x)\<rparr>))
                    else Inr s1) of
                Inl e \<Rightarrow> emit failed s1
              | Inr s2 \<Rightarrow>
                  if prophet_models s2 key \<noteq> None
                  then emit (Debug ''Loaded models for %s from disk.'') s2 else s2))"

text \<open>Python dictionaries returned by \<open>train\<close>.\<close>

datatype pyval = S string | N nat | DateRange int int

type_synonym pydict = "(string \<times> pyval) list"

definition date_range :: "history \<Rightarrow> pyval" where
  "date_range h = DateRange (Min (set (map fst h))) (Max (set (map fst h)))"

text \<open>
  The feature columns of the XGBoost frame (a history frame has no extra columns).
\<close>

definition XGB_FEATURE_COLS :: "string list" where
  "XGB_FEATURE_COLS =
     [''day_of_week'', ''month'', ''day_of_month'', ''week_of_year'', ''is_weekend'',
      ''lag_1'', ''lag_3'', ''lag_7'', ''lag_14'',
      ''rolling_mean_7'', ''rolling_mean_14'', ''rolling_mean_30'',
      ''rolling_std_7'', ''rolling_std_14'', ''rolling_std_30'']"

text \<open>\<open>DataFrame.tail(n)\<close>: the last \<open>n\<close> rows; for negative \<open>n\<close>, all but the first \<open>-n\<close>.\<close>

definition tail_df :: "'a list \<Rightarrow> int \<Rightarrow> 'a list" where
  "tail_df xs n = (if n \<ge> 0 then drop (length xs - nat n) xs else drop (nat (- n)) xs)"

text \<open>
  \<open>train\<close>. The two imports come first and their exception leaves the function. After
  the row-count guard the frame is sorted by date and Prophet is fitted on it. The
  XGBoost frame gets the lag columns; \<open>shift(14)\<close> leaves the first 14 rows without
  \<open>lag_14\<close>, so \<open>dropna\<close> removes exactly those (the rolling columns are never
  missing). The regressor is fitted on the rest, and \<open>xgb_df.iloc[-1]\<close> raises
  \<open>IndexError\<close> when no row is left. The entry keeps the last 30 rows.
\<close>

definition train ::
  "DemandForecaster \<Rightarrow> string \<Rightarrow> string \<Rightarrow> history \<Rightarrow> (error + pydict) \<times> DemandForecaster" where
  "train self sid pid history_df =
     (case import_libs self of
        Some e \<Rightarrow> (Inl e, self)
      | None \<Rightarrow>
          let key = model_key sid pid
          in if length history_df < 14
             then (Inr [(''status'', S ''skipped''), (''reason'', S ''insufficient_data''),
                        (''rows'', N (length history_df))],
                   emit (Warning ''Insufficient data for %s (%d rows). Need at least 14.'' [key]) self)
             else
               let df = sort_key fst history_df
               in (case fit_prophet self df of
                     Inl e \<Rightarrow> (Inl e, self)
                   | Inr pm \<Rightarrow>
                       let s1 = self\<lparr>prophet_models := (prophet_models self)(key \<mapsto> pm)\<rparr>;
                           xgb_df = drop 14 df
                       in (case fit_xgb s1 xgb_df of
                             Inl e \<Rightarrow> (Inl e, s1)
                           | Inr regressor \<Rightarrow>
                               if xgb_df = [] then (Inl IndexError, s1)
                               else
                                 let entry = XgbData \<lparr>xgb_model = regressor,
                                                      feature_cols = XGB_FEATURE_COLS,
                                                      history_y = map snd (tail_df xgb_df 30)\<rparr>;
                                     s2 = s1\<lparr>xgb_models := (xgb_models s1)(key \<mapsto> entry)\<rparr>;
                                     s3 = save_model s2 key
                                 in (Inr [(''status'', S ''trained''), (''key'', S key),
                                          (''data_points'', N (length df)),
                                          (''date_range'', date_range df)],
                                     emit (Info ''Trained demand model for %s.'') s3))))"

text \<open>\<open>_fetch_history\<close>: no database, or no rows, is the empty frame.\<close>

definition fetch_history :: "DemandForecaster \<Rightarrow> string \<Rightarrow> string \<Rightarrow> error + history" where
  "fetch_history self sid pid =
     (case df_db self of None \<Rightarrow> Inr [] | Some d \<Rightarrow> q_history d sid pid)"

text \<open>
  \<open>_heuristic_predict\<close>; \<open>float(row["avg_daily"] or 0)\<close> turns NULL into 0, and the
  integer horizon is converted to a float for the product.
\<close>

definition heuristic_predict ::
  "DemandForecaster \<Rightarrow> string \<Rightarrow> string \<Rightarrow> int \<Rightarrow> error + DemandPrediction" where
  "heuristic_predict self sid pid h =
     (case (case df_db self of
              None \<Rightarrow> Inr 0
            | Some d \<Rightarrow>
                (case q_avg_daily d sid pid of
                   Inl e \<Rightarrow> Inl e
                 | Inr None \<Rightarrow> Inr 0
                 | Inr (Some None) \<Rightarrow> Inr 0
                 | Inr (Some (Some v)) \<Rightarrow> Inr v)) of
        Inl e \<Rightarrow> Inl e
      | Inr avg_daily \<Rightarrow>
          let predicted = fmul avg_daily (fl (of_int h))
          in Inr \<lparr>store_id_dp = sid, product_id_dp = pid, horizon_days = h,
                  predicted_qty = py_round predicted 1,
                  lower_bound = py_round (fmul predicted (dec 7 10)) 1,
                  upper_bound = py_round (fmul predicted (dec 13 10)) 1,
                  confidence = dec 3 10, trend_label = ''stable'',
                  seasonality_component = Some 0, model_version = ''v0-heuristic''\<rparr>)"

text \<open>
  The sum of a frame column (0 on no rows), its mean (NaN on no rows), and the
  built-in \<open>sum\<close> of a list of floats (0 on the empty list).
\<close>

definition column_sum :: "numerics \<Rightarrow> real list \<Rightarrow> real" where
  "column_sum lib xs = (if xs = [] then 0 else series_sum lib xs)"

definition column_mean :: "numerics \<Rightarrow> real list \<Rightarrow> real option" where
  "column_mean lib xs = (if xs = [] then None else Some (series_mean lib xs))"

definition builtin_sum :: "numerics \<Rightarrow> real list \<Rightarrow> real" where
  "builtin_sum lib xs = (if xs = [] then 0 else py_sum lib xs)"

text \<open>The feature row of one future day in the autoregressive rollout.\<close>

definition lag_feature :: "numerics \<Rightarrow> real list \<Rightarrow> nat \<Rightarrow> real option" where
  "lag_feature lib y_series lag =
     (if int (length y_series) - int lag \<ge> 0 then Some (y_series ! (length y_series - lag))
      else if y_series = [] then None
      else Some (np_mean lib y_series))"

definition rolling_mean :: "numerics \<Rightarrow> real list \<Rightarrow> nat \<Rightarrow> real option" where
  "rolling_mean lib y_series window =
     (let window_data = tail_df y_series (int window)
      in if window_data \<noteq> [] then Some (np_mean lib window_data) else Some 0)"

definition rolling_std :: "numerics \<Rightarrow> real list \<Rightarrow> nat \<Rightarrow> real option" where
  "rolling_std lib y_series window =
     (let window_data = tail_df y_series (int window)
      in if length window_data > 1 then Some (np_std lib window_data) else Some 0)"

definition future_row ::
  "numerics \<Rightarrow> (string \<times> real option) list \<Rightarrow> real list \<Rightarrow> (string \<times> real option) list" where
  "future_row lib cal y_series =
     cal
     @ [(''lag_1'', lag_feature lib y_series 1), (''lag_3'', lag_feature lib y_series 3),
        (''lag_7'', lag_feature lib y_series 7), (''lag_14'', lag_feature lib y_series 14)]
     @ [(''rolling_mean_7'', rolling_mean lib y_series 7),
        (''rolling_std_7'', rolling_std lib y_series 7),
        (''rolling_mean_14'', rolling_mean lib y_series 14),
        (''rolling_std_14'', rolling_std lib y_series 14),
        (''rolling_mean_30'', rolling_mean lib y_series 30),
        (''rolling_std_30'', rolling_std lib y_series 30)]"

definition row_get :: "(string \<times> real option) list \<Rightarrow> string \<Rightarrow> real option" where
  "row_get row c = (case map_of row c of None \<Rightarrow> Some 0 | Some v \<Rightarrow> v)"

text \<open>
  The regressor's clamped prediction for the day \<open>day + 1\<close> days from now, given the
  series the lags are read from.
\<close>

definition day_prediction ::
  "numerics \<Rightarrow> xgb_data \<Rightarrow> (nat \<Rightarrow> (string \<times> real option) list) \<Rightarrow> nat \<Rightarrow> real list
     \<Rightarrow> error + real" where
  "day_prediction lib xd cal day y_series =
     (case xgb_model xd (map (row_get (future_row lib (cal (day + 1)) y_series)) (feature_cols xd)) of
        Inl e \<Rightarrow> Inl e
      | Inr v \<Rightarrow> Inr (max 0 v))"

text \<open>
  The loop \<open>for day in range(horizon_days)\<close>: predict the day, clamp at 0, append the
  prediction to the series the next lags are read from.
\<close>

fun xgb_rollout ::
  "numerics \<Rightarrow> xgb_data \<Rightarrow> (nat \<Rightarrow> (string \<times> real option) list) \<Rightarrow> nat \<Rightarrow> nat \<Rightarrow> real list
     \<Rightarrow> real list \<Rightarrow> error + real list" where
  "xgb_rollout lib xd cal day 0 y_series xgb_predictions = Inr xgb_predictions"
| "xgb_rollout lib xd cal day (Suc k) y_series xgb_predictions =
     (case day_prediction lib xd cal day y_series of
        Inl e \<Rightarrow> Inl e
      | Inr pred \<Rightarrow>
          xgb_rollout lib xd cal (Suc day) k (y_series @ [pred]) (xgb_predictions @ [pred]))"

text \<open>The body of the \<open>try\<close> around the XGBoost prediction.\<close>

definition xgb_estimate :: "DemandForecaster \<Rightarrow> obj \<Rightarrow> int \<Rightarrow> error + real" where
  "xgb_estimate self x h =
     (case x of
        XgbData xd \<Rightarrow>
          (case xgb_rollout (df_numerics self) xd (calendar self) 0 (nat h) (history_y xd) [] of
             Inl e \<Rightarrow> Inl e
           | Inr xgb_predictions \<Rightarrow> Inr (builtin_sum (df_numerics self) xgb_predictions))
      | _ \<Rightarrow> Inl AttributeError)"

text \<open>
  The value of \<open>xgb_qty\<close> after the \<open>try\<close>: the rollout sum, or the Prophet
  quantity when there is no XGBoost entry for the key or the rollout raised.
\<close>

definition residual_or_trend :: "DemandForecaster \<Rightarrow> string \<Rightarrow> int \<Rightarrow> real \<Rightarrow> real" where
  "residual_or_trend self key h prophet_qty =
     (case xgb_models self key of
        None \<Rightarrow> prophet_qty
      | Some x \<Rightarrow> (case xgb_estimate self x h of Inl e \<Rightarrow> prophet_qty | Inr q \<Rightarrow> q))"

text \<open>The log record of the \<open>except\<close> clause around the XGBoost prediction.\<close>

definition residual_log :: "DemandForecaster \<Rightarrow> string \<Rightarrow> int \<Rightarrow> DemandForecaster" where
  "residual_log self key h =
     (case xgb_models self key of
        None \<Rightarrow> self
      | Some x \<Rightarrow>
          (case xgb_estimate self x h of
             Inl e \<Rightarrow> emit (Warning ''XGBoost prediction failed for %s, using Prophet only.'' [key]) self
           | Inr q \<Rightarrow> self))"

definition trend_of_slope :: "real \<Rightarrow> string" where
  "trend_of_slope trend_slope =
     (if trend_slope > 1 / 2 then ''increasing''
      else if trend_slope < - (1 / 2) then ''decreasing''
      else ''stable'')"

text \<open>\<open>ensemble_qty\<close> (lines 305-307).\<close>

definition ensemble :: "real \<Rightarrow> real \<Rightarrow> real" where
  "ensemble prophet_qty xgb_qty =
     fadd (fmul PROPHET_WEIGHT prophet_qty) (fmul XGBOOST_WEIGHT xgb_qty)"

text \<open>
  The part of \<open>predict\<close> after a Prophet model was found for the key (lines 231-324).
  The division of the confidence raises on a zero denominator.
\<close>

definition predict_trained ::
  "DemandForecaster \<Rightarrow> string \<Rightarrow> string \<Rightarrow> int \<Rightarrow> obj \<Rightarrow> (error + DemandPrediction) \<times> DemandForecaster" where
  "predict_trained self sid pid h prophet_model =
     (case prophet_model of
        ProphetModel run \<Rightarrow>
          (case run h of
             Inl e \<Rightarrow> (Inl e, self)
           | Inr fc \<Rightarrow>
               let lib = df_numerics self;
                   prophet_forecast = tail_df (rows fc) h;
                   prophet_qty = max 0 (column_sum lib (map yhat prophet_forecast));
                   prophet_lower = max 0 (column_sum lib (map yhat_lower prophet_forecast));
                   prophet_upper = max 0 (column_sum lib (map yhat_upper prophet_forecast));
                   recent_trend = map trend (tail_df (rows fc) (h + 7))
               in if recent_trend = [] then (Inl IndexError, self)
                  else
                    let trend_slope = fsub (last recent_trend) (hd recent_trend);
                        seasonality = (if has_weekly fc then column_mean lib (map weekly prophet_forecast)
                                       else Some 0);
                        key = model_key sid pid;
                        xgb_qty = residual_or_trend self key h prophet_qty;
                        self' = residual_log self key h;
                        ensemble_qty = ensemble prophet_qty xgb_qty;
                        interval_width = fsub prophet_upper prophet_lower;
                        denominator = fadd ensemble_qty (dec 1 1000000)
                    in if denominator = 0 then (Inl ZeroDivisionError, self')
                       else
                         let conf = max 0 (min 1 (fsub 1 (fdiv interval_width denominator)))
                         in (Inr \<lparr>store_id_dp = sid, product_id_dp = pid, horizon_days = h,
                                  predicted_qty = py_round ensemble_qty 1,
                                  lower_bound = py_round prophet_lower 1,
                                  upper_bound = py_round prophet_upper 1,
                                  confidence = py_round conf 3,
                                  trend_label = trend_of_slope trend_slope,
                                  seasonality_component = map_option (\<lambda>x. py_round x 2) seasonality,
                                  model_version = ''v1-prophet-xgb''\<rparr>, self'))
      | _ \<Rightarrow> (Inl AttributeError, self))"

text \<open>
  \<open>predict\<close>: load from disk if the key is not in memory, else train from the database
  history when it has at least 14 rows, else the heuristic.
\<close>

definition demand_predict ::
  "DemandForecaster \<Rightarrow> string \<Rightarrow> string \<Rightarrow> int \<Rightarrow> (error + DemandPrediction) \<times> DemandForecaster" where
  "demand_predict self sid pid h =
     (let key = model_key sid pid;
          s1 = (if prophet_models self key = None then load_model self key else self);
          (raised, s2) =
            (if prophet_models s1 key = None \<and> df_db s1 \<noteq> None
             then (case fetch_history s1 sid pid of
                     Inl e \<Rightarrow> (Some e, s1)
                   | Inr history_df \<Rightarrow>
                       if length history_df \<ge> 14
                       then (case train s1 sid pid history_df of
                               (Inl e, s) \<Rightarrow> (Some e, s)
                             | (Inr d, s) \<Rightarrow> (None, s))
                       else (None, s1))
             else (None, s1))
      in case raised of
           Some e \<Rightarrow> (Inl e, s2)
         | None \<Rightarrow>
             (case prophet_models s2 key of
                None \<Rightarrow> (heuristic_predict s2 sid pid h, s2)
              | Some m \<Rightarrow> predict_trained s2 sid pid h m))"

section \<open>Route optimisation (app/ml/route_optimizer.py)\<close>

record StoreLocation =
  store_id_sl :: string
  store_name_sl :: string
  lat :: real
  lng :: real
  priority :: int
  estimated_visit_minutes :: int

record OptimizedRoute =
  rep_id :: string
  ordered_stores :: "StoreLocation list"
  total_distance_km :: real
  estimated_duration_minutes :: real
  start_location :: "StoreLocation option"
  optimization_status :: string
  waypoints :: "(real \<times> real) list"

definition AVG_SPEED_KMH :: real where
  "AVG_SPEED_KMH = 25"

definition radians :: "real \<Rightarrow> real" where
  "radians x = x * pi / 180"

definition atan2 :: "real \<Rightarrow> real \<Rightarrow> real" where
  "atan2 y x =
     (if x > 0 then arctan (y / x)
      else if x < 0 \<and> y \<ge> 0 then arctan (y / x) + pi
      else if x < 0 then arctan (y / x) - pi
      else if y > 0 then pi / 2
      else if y < 0 then - (pi / 2)
      else 0)"

definition haversine_km :: "real \<Rightarrow> real \<Rightarrow> real \<Rightarrow> real \<Rightarrow> real" where
  "haversine_km lat1 lng1 lat2 lng2 =
     (let R = 6371;
          dlat = radians (lat2 - lat1);
          dlng = radians (lng2 - lng1);
          a = (sin (dlat / 2))\<^sup>2
              + cos (radians lat1) * cos (radians lat2) * (sin (dlng / 2))\<^sup>2;
          c = 2 * atan2 (sqrt a) (sqrt (1 - a))
      in R * c)"

definition store_distance :: "StoreLocation \<Rightarrow> StoreLocation \<Rightarrow> real" where
  "store_distance a b = haversine_km (lat a) (lng a) (lat b) (lng b)"

text \<open>
  \<open>_build_distance_matrix\<close>: zero on the diagonal; for \<open>i < j\<close> the distance from
  node \<open>i\<close> to node \<open>j\<close>, stored at both \<open>[i][j]\<close> and \<open>[j][i]\<close>.
\<close>

definition build_distance_matrix :: "StoreLocation list \<Rightarrow> real list list" where
  "build_distance_matrix nodes =
     map (\<lambda>i. map (\<lambda>j. if i = j then 0
                        else store_distance (nodes ! min i j) (nodes ! max i j))
                 [0..<length nodes])
         [0..<length nodes]"

text \<open>
  The OR-Tools routing model for \<open>n\<close> nodes, one vehicle and a depot, as the library
  defines it: the indices \<open>0..n-1\<close> are the nodes, the vehicle starts at the depot's
  index, the index \<open>n\<close> is the vehicle's end and maps back to the depot node.
\<close>

definition Start :: "nat \<Rightarrow> nat" where
  "Start depot = depot"

definition IsEnd :: "nat \<Rightarrow> nat \<Rightarrow> bool" where
  "IsEnd n index = (index \<ge> n)"

definition IndexToNode :: "nat \<Rightarrow> nat \<Rightarrow> nat \<Rightarrow> nat" where
  "IndexToNode n depot index = (if index < n then index else depot)"

text \<open>
  The route extraction loop of \<open>_solve_tsp\<close>, following the solution's next-variable
  from the start index until the end index; it does not return when the successor
  function never reaches the end.
\<close>

partial_function (option) extract_route ::
  "nat \<Rightarrow> nat \<Rightarrow> (nat \<Rightarrow> nat) \<Rightarrow> nat \<Rightarrow> nat list \<Rightarrow> nat list option" where
  "extract_route n depot nxt index route =
     (if IsEnd n index then Some (route @ [IndexToNode n depot index])
      else extract_route n depot nxt (nxt index) (route @ [IndexToNode n depot index]))"

definition INT_SCALE :: real where
  "INT_SCALE = 1000"

text \<open>\<open>int(x)\<close> on a float truncates towards zero.\<close>

definition py_int :: "real \<Rightarrow> int" where
  "py_int x = (if x \<ge> 0 then \<lfloor>x\<rfloor> else \<lceil>x\<rceil>)"

text \<open>
  \<open>_solve_tsp\<close>. The library call (import, model construction, search with the five
  second limit) is the parameter \<open>solver\<close>: from the integer matrix and the depot it
  raises, finds no solution, or returns the successor of every index.
\<close>

definition solve_tsp ::
  "(int list list \<Rightarrow> nat \<Rightarrow> error + (nat \<Rightarrow> nat) option) \<Rightarrow> real list list \<Rightarrow> nat
     \<Rightarrow> (error + nat list) option" where
  "solve_tsp solver distance_matrix depot =
     (let n = length distance_matrix;
          int_matrix = map (map (\<lambda>d. py_int (d * INT_SCALE))) distance_matrix
      in case solver int_matrix depot of
           Inl e \<Rightarrow> Some (Inl e)
         | Inr None \<Rightarrow> Some (Inl RuntimeError)
         | Inr (Some nxt) \<Rightarrow> map_option Inr (extract_route n depot nxt (Start depot) []))"

text \<open>
  \<open>_nearest_neighbour\<close>. The inner loop over \<open>j\<close> keeps the best candidate so far;
  \<open>None\<close> stands for \<open>nearest = -1\<close>, \<open>nearest_dist = inf\<close>. The set \<open>visited\<close> is a
  duplicate-free list.
\<close>

fun find_nearest ::
  "real list list \<Rightarrow> nat \<Rightarrow> nat list \<Rightarrow> nat list \<Rightarrow> (nat \<times> real) option \<Rightarrow> (nat \<times> real) option" where
  "find_nearest dm current visited [] best = best"
| "find_nearest dm current visited (j # js) best =
     (if j \<notin> set visited
         \<and> (case best of None \<Rightarrow> True
             | Some (nearest, nearest_dist) \<Rightarrow> dm ! current ! j < nearest_dist)
      then find_nearest dm current visited js (Some (j, dm ! current ! j))
      else find_nearest dm current visited js best)"

function nn_loop :: "real list list \<Rightarrow> nat \<Rightarrow> nat list \<Rightarrow> nat list \<Rightarrow> nat \<Rightarrow> nat list" where
  "nn_loop dm n visited route current =
     (if length visited < n
      then (case find_nearest dm current visited [0..<n] None of
              None \<Rightarrow> route
            | Some (nearest, d) \<Rightarrow>
                nn_loop dm n (List.insert nearest visited) (route @ [nearest]) nearest)
      else route)"
  by pat_completeness auto
termination
proof (relation "measure (\<lambda>(dm, n, visited, route, current). n - length visited)")
  show "wf (measure (\<lambda>(dm, n, visited, route, current). n - length visited))"
    by simp
next
  fix dm :: "real list list" and n :: nat and visited route :: "nat list"
    and current :: nat and x2 :: "nat \<times> real" and nearest :: nat and d :: real
  assume lt: "length visited < n"
    and found: "find_nearest dm current visited [0..<n] None = Some x2"
    and x2: "(nearest, d) = x2"
  have inv: "find_nearest dm current visited js best = Some (j, e) \<Longrightarrow>
      (\<forall>k e'. best = Some (k, e') \<longrightarrow> k \<notin> set visited) \<Longrightarrow> j \<notin> set visited"
    for js best j e
    by (induction js arbitrary: best) (auto split: if_splits)
  from found x2 have "nearest \<notin> set visited"
    using inv [of "[0..<n]" None nearest d] by simp
  with lt show "((dm, n, List.insert nearest visited, route @ [nearest], nearest),
      (dm, n, visited, route, current))
    \<in> measure (\<lambda>(dm, n, visited, route, current). n - length visited)"
    by simp
qed

definition nearest_neighbour :: "real list list \<Rightarrow> nat \<Rightarrow> nat list" where
  "nearest_neighbour distance_matrix depot =
     nn_loop distance_matrix (length distance_matrix) [depot] [depot] depot"

text \<open>
  The optimiser: its database (\<open>_fetch_store_locations\<close> returns the located stores
  of the requested ids, or raises; without a database it returns nothing) and the
  routing library.
\<close>

record RouteOptimizer =
  ro_db :: "(string list \<Rightarrow> string option \<Rightarrow> error + StoreLocation list) option"
  ro_solver :: "int list list \<Rightarrow> nat \<Rightarrow> error + (nat \<Rightarrow> nat) option"

definition fetch_store_locations ::
  "RouteOptimizer \<Rightarrow> string list \<Rightarrow> string option \<Rightarrow> error + StoreLocation list" where
  "fetch_store_locations self store_ids company =
     (case ro_db self of
        None \<Rightarrow> Inr []
      | Some q \<Rightarrow> if store_ids = [] then Inr [] else q store_ids company)"

definition not_solved :: "string \<Rightarrow> OptimizedRoute" where
  "not_solved rep =
     \<lparr>rep_id = rep, ordered_stores = [], total_distance_km = 0,
      estimated_duration_minutes = 0, start_location = None,
      optimization_status = ''not_solved'', waypoints = []\<rparr>"

definition start_node :: "(real \<times> real) option \<Rightarrow> StoreLocation option" where
  "start_node start_loc =
     map_option (\<lambda>(la, ln). \<lparr>store_id_sl = ''start'', store_name_sl = ''Starting Location'',
                              lat = la, lng = ln, priority = 0, estimated_visit_minutes = 0\<rparr>)
       start_loc"

definition visit_minutes :: "StoreLocation list \<Rightarrow> real" where
  "visit_minutes ss = of_int (sum_list (map estimated_visit_minutes ss))"

text \<open>The branch for one or two stores (lines 115-135).\<close>

definition direct_route :: "string \<Rightarrow> StoreLocation list \<Rightarrow> StoreLocation option \<Rightarrow> OptimizedRoute" where
  "direct_route rep stores start =
     (let ordered = stores;
          d0 = (case start of None \<Rightarrow> 0 | Some s \<Rightarrow> store_distance s (ordered ! 0));
          total_dist = (if length ordered = 2
                        then d0 + store_distance (ordered ! 0) (ordered ! 1) else d0);
          visit_time = visit_minutes ordered;
          travel_time = (total_dist / AVG_SPEED_KMH) * 60
      in \<lparr>rep_id = rep, ordered_stores = ordered,
          total_distance_km = py_round total_dist 2,
          estimated_duration_minutes = py_round (visit_time + travel_time) 0,
          start_location = start, optimization_status = ''optimal'', waypoints = []\<rparr>)"

text \<open>The node list (lines 137-151): the start or the first store is the depot.\<close>

definition build_nodes :: "StoreLocation list \<Rightarrow> StoreLocation option \<Rightarrow> StoreLocation list" where
  "build_nodes stores start =
     (let nodes0 = [case start of Some s \<Rightarrow> s | None \<Rightarrow> stores ! 0];
          nodes1 = nodes0 @ filter (\<lambda>s. start \<noteq> None \<or> s \<noteq> stores ! 0) stores
      in if start = None then stores else nodes1)"

text \<open>The sum of the legs between consecutive route indices (lines 169-172).\<close>

fun route_distance :: "real list list \<Rightarrow> nat list \<Rightarrow> real" where
  "route_distance dm (from_idx # to_idx # rest) =
     dm ! from_idx ! to_idx + route_distance dm (to_idx # rest)"
| "route_distance dm rest = 0"

text \<open>
  The stores of the result (lines 174-180): every route index in order, except index
  0 when a start location was supplied.
\<close>

definition route_stores ::
  "StoreLocation list \<Rightarrow> StoreLocation option \<Rightarrow> nat list \<Rightarrow> StoreLocation list" where
  "route_stores nodes start route_indices =
     map (\<lambda>idx. nodes ! idx) (filter (\<lambda>idx. \<not> (start \<noteq> None \<and> idx = 0)) route_indices)"

definition build_result ::
  "string \<Rightarrow> StoreLocation list \<Rightarrow> real list list \<Rightarrow> StoreLocation option \<Rightarrow> nat list
     \<Rightarrow> OptimizedRoute" where
  "build_result rep nodes dm start route_indices =
     (let stores' = route_stores nodes start route_indices;
          total_dist = route_distance dm route_indices;
          visit_time = visit_minutes stores';
          travel_time = (total_dist / AVG_SPEED_KMH) * 60
      in \<lparr>rep_id = rep, ordered_stores = stores',
          total_distance_km = py_round total_dist 2,
          estimated_duration_minutes = py_round (visit_time + travel_time) 0,
          start_location = start, optimization_status = ''optimal'',
          waypoints = map (\<lambda>node. (lat node, lng node)) stores'\<rparr>)"

text \<open>
  \<open>optimize\<close>. The result is \<open>None\<close> when the call does not return (the extraction
  loop runs forever), otherwise the route or the exception that reaches the caller,
  with the log records emitted.
\<close>

definition optimize ::
  "RouteOptimizer \<Rightarrow> string \<Rightarrow> string list \<Rightarrow> (real \<times> real) option \<Rightarrow> string option
     \<Rightarrow> ((error + OptimizedRoute) \<times> log list) option" where
  "optimize self rep store_ids start_loc company =
     (if store_ids = [] then Some (Inr (not_solved rep), [])
      else case fetch_store_locations self store_ids company of
             Inl e \<Rightarrow> Some (Inl e, [])
           | Inr stores \<Rightarrow>
               if stores = [] then Some (Inr (not_solved rep), [])
               else
                 let start = start_node start_loc
                 in if length stores \<le> 2 then Some (Inr (direct_route rep stores start), [])
                    else
                      let nodes = build_nodes stores start;
                          distance_matrix = build_distance_matrix nodes
                      in (case solve_tsp (ro_solver self) distance_matrix 0 of
                           None \<Rightarrow> None
                         | Some (Inr route_indices) \<Rightarrow>
                             Some (Inr (build_result rep nodes distance_matrix start route_indices), [])
                         | Some (Inl e) \<Rightarrow>
                             Some (Inr (build_result rep nodes distance_matrix start
                                          (nearest_neighbour distance_matrix 0)),
                                   [Warning ''OR-Tools TSP solver failed, using nearest-neighbour heuristic.'' []])))"


section \<open>Concrete inputs\<close>

text \<open>
  A numeric library that returns the correctly rounded exact result. On a list of one
  element the mean and the sum are the element and the deviation is 0, as in every
  implementation.
\<close>

definition exact_numerics :: numerics where
  "exact_numerics =
     \<lparr>np_mean = (\<lambda>xs. fl (sum_list xs / real (length xs))),
      np_std = (\<lambda>xs. fl (sqrt (sum_list (map (\<lambda>x. (x - sum_list xs / real (length xs))\<^sup>2) xs)
                                 / real (length xs)))),
      polyfit_slope = (\<lambda>ys. fl ((\<Sum>i<length ys. (real i - (real (length ys) - 1) / 2) * ys ! i)
                                / (\<Sum>i<length ys. (real i - (real (length ys) - 1) / 2)\<^sup>2))),
      series_sum = (\<lambda>xs. fl (sum_list xs)),
      series_mean = (\<lambda>xs. fl (sum_list xs / real (length xs))),
      py_sum = (\<lambda>xs. fl (sum_list xs))\<rparr>"

definition no_state :: trained_state where
  "no_state = \<lparr>model = None, scaler = None\<rparr>"

text \<open>A Wednesday, the 4th of November.\<close>

definition today :: calendar_day where
  "today = \<lparr>weekday = 2, day_of_month = 4, month_of_year = 11\<rparr>"

definition offline_predictor :: StockoutPredictor where
  "offline_predictor =
     \<lparr>sp_db = None, sp_settings = default_settings, sp_state = no_state, sp_today = today,
      sp_numerics = exact_numerics\<rparr>"

text \<open>
  Three store-product pairs, each with one day of sales on record and an inventory row
  without restock time: the first sold one unit and has the given stock, the second
  sold one unit and has 2 in stock, the third sold five and has none. The sale date is
  a date without time, on which the date arithmetic of the source raises \<open>TypeError\<close>.
\<close>

definition demo_stock_db :: "real \<Rightarrow> stock_db" where
  "demo_stock_db first_stock =
     \<lparr>q_combos = (\<lambda>cid lim. Inr [(''s1'', ''p1''), (''s2'', ''p2''), (''s3'', ''p3'')]),
      q_names = (\<lambda>sid pid.
         if sid = ''s1'' then Inr (Some (''Store 1'', ''Rice''))
         else if sid = ''s2'' then Inr (Some (''Store 2'', ''Tea''))
         else Inr (Some (''Store 3'', ''Soap''))),
      q_consumption = (\<lambda>sid pid.
         if sid = ''s1'' then Inr [(1, Inl TypeError)]
         else if sid = ''s2'' then Inr [(1, Inl TypeError)]
         else Inr [(5, Inl TypeError)]),
      q_inventory = (\<lambda>sid pid.
         if sid = ''s1'' then Inr (Some (Some first_stock, None))
         else if sid = ''s2'' then Inr (Some (Some 2, None))
         else Inr (Some (Some 0, None)))\<rparr>"

definition demo_predictor :: "trained_state \<Rightarrow> real \<Rightarrow> StockoutPredictor" where
  "demo_predictor st first_stock =
     \<lparr>sp_db = Some (demo_stock_db first_stock), sp_settings = default_settings, sp_state = st,
      sp_today = today, sp_numerics = exact_numerics\<rparr>"

text \<open>
  A trained state: a scaler with mean 0 and scale 1, and a forest that answers by the
  first entry of the vector (the stock): 0.95 for no stock, 0.9 up to 10 units, 0.1
  above. As a scikit-learn forest does, it casts its input to 32-bit floats and raises
  \<open>ValueError\<close> on an entry too large for that type (here: of magnitude
  \<open>2\<^sup>1\<^sup>2\<^sup>8\<close> or more).
\<close>

definition forest :: "real list \<Rightarrow> error + real" where
  "forest v =
     (if list_ex (\<lambda>x. \<bar>x\<bar> \<ge> 2 ^ 128) v then Inl ValueError
      else Inr (if hd v \<le> 0 then dec 95 100 else if hd v \<le> 10 then dec 9 10 else dec 1 10))"

text \<open>A stock figure that is a double but has no 32-bit float value.\<close>

definition huge_stock :: real where
  "huge_stock = 2 ^ 130"

definition forest_state :: trained_state where
  "forest_state = \<lparr>model = Some (Model forest), scaler = Some (Scaler (\<lambda>v. Inr v))\<rparr>"

definition tea_alert :: StockoutPrediction where
  "tea_alert =
     \<lparr>store_id = ''s2'', product_id = ''p2'', store_name = ''Store 2'', product_name = ''Tea'',
      probability = dec 9 10, days_until_stockout = 2, current_stock = 2,
      avg_daily_consumption = 1, lead_time_days = 3, suggested_reorder_qty = 16,
      risk_level = ''critical'', factors = [StockCoversOnly 2 3]\<rparr>"

definition soap_alert :: StockoutPrediction where
  "soap_alert =
     \<lparr>store_id = ''s3'', product_id = ''p3'', store_name = ''Store 3'', product_name = ''Soap'',
      probability = dec 95 100, days_until_stockout = 0, current_stock = 0,
      avg_daily_consumption = 5, lead_time_days = 3, suggested_reorder_qty = 92,
      risk_level = ''critical'', factors = [ZeroCurrentStock, StockCoversOnly 0 3]\<rparr>"

text \<open>
  A store that last ordered 40 days ago, with falling order frequency and no visit in
  30 days; and a store that pays on time.
\<close>

definition lapsed_store :: features where
  "lapsed_store =
     [''days_since_last_order'' \<mapsto> 40, ''frequency_trend'' \<mapsto> dec 4 10,
      ''aov_trend'' \<mapsto> 1, ''visit_count_30d'' \<mapsto> 0]"

definition prompt_payer :: features where
  "prompt_payer =
     [''on_time_payment_rate'' \<mapsto> 1, ''order_frequency_monthly'' \<mapsto> 4,
      ''avg_order_value'' \<mapsto> 1000, ''relationship_months'' \<mapsto> 6]"

text \<open>A classifier and a regressor with a constant answer, behind a scaler that changes nothing.\<close>

definition constant_state :: "real \<Rightarrow> trained_state" where
  "constant_state c = \<lparr>model = Some (Model (\<lambda>v. Inr c)), scaler = Some (Scaler (\<lambda>v. Inr v))\<rparr>"

text \<open>
  A forecaster without models, whose libraries import and whose fitting routines
  return a Prophet model forecasting one unit a day and a regressor predicting an
  eighth of a unit a day.
\<close>

definition flat_forecast :: "int \<Rightarrow> error + forecast" where
  "flat_forecast n =
     Inr \<lparr>rows = replicate (nat n + 7) \<lparr>yhat = 1, yhat_lower = 1, yhat_upper = 1,
                                           trend = 1, weekly = 0\<rparr>,
          has_weekly = True\<rparr>"

definition flat_xgb :: xgb_data where
  "flat_xgb = \<lparr>xgb_model = (\<lambda>row. Inr (1 / 8)), feature_cols = [''lag_1''], history_y = [1, 1, 1]\<rparr>"

definition empty_disk :: filesystem where
  "empty_disk = \<lparr>files = Map.empty, mkdir_ok = True, can_open = (\<lambda>p. True), can_dump = (\<lambda>p. True)\<rparr>"

definition demo_forecaster :: "demand_db option \<Rightarrow> DemandForecaster" where
  "demo_forecaster db =
     \<lparr>df_db = db, prophet_models = Map.empty, xgb_models = Map.empty,
      model_dir = ''/app/models/demand'', disk = empty_disk, logged = [],
      import_libs = None,
      fit_prophet = (\<lambda>h. Inr (ProphetModel flat_forecast)),
      fit_xgb = (\<lambda>h. Inr (\<lambda>row. Inr (1 / 8))),
      calendar = (\<lambda>d. []),
      df_numerics = exact_numerics\<rparr>"

definition daily_history :: "nat \<Rightarrow> history" where
  "daily_history n = map (\<lambda>i. (int i, 10)) [0..<n]"

definition avg_db :: "real \<Rightarrow> demand_db" where
  "avg_db v = \<lparr>q_history = (\<lambda>s p. Inr []), q_avg_daily = (\<lambda>s p. Inr (Some (Some v)))\<rparr>"

text \<open>The forecaster with both models of the pair s1, p1 in memory.\<close>

definition trained_forecaster :: DemandForecaster where
  "trained_forecaster =
     (demo_forecaster None)
       \<lparr>prophet_models := [model_key ''s1'' ''p1'' \<mapsto> ProphetModel flat_forecast],
        xgb_models := [model_key ''s1'' ''p1'' \<mapsto> XgbData flat_xgb]\<rparr>"

text \<open>
  Model directories: one that holds only the Prophet artifact of the pair s1, p1; one
  that holds both stock-out artifacts; one on which the XGBoost artifact of the pair
  cannot be opened for writing, and one on which its dump fails; one on which the
  stock-out scaler cannot be opened for writing.
\<close>

definition prophet_path :: string where
  "prophet_path = join_path ''/app/models/demand'' (model_key ''s1'' ''p1'' @ ''_prophet.pkl'')"

definition xgb_path :: string where
  "xgb_path = join_path ''/app/models/demand'' (model_key ''s1'' ''p1'' @ ''_xgb.pkl'')"

definition half_disk :: filesystem where
  "half_disk =
     \<lparr>files = [prophet_path \<mapsto> Pickle (ProphetModel flat_forecast)], mkdir_ok = True,
      can_open = (\<lambda>p. True), can_dump = (\<lambda>p. True)\<rparr>"

definition full_disk :: filesystem where
  "full_disk =
     \<lparr>files = [join_path ''/app/models/stockout'' ''stockout_rf.pkl'' \<mapsto> Pickle (Model forest),
               join_path ''/app/models/stockout'' ''stockout_scaler.pkl''
                 \<mapsto> Pickle (Scaler (\<lambda>v. Inr v))],
      mkdir_ok = True, can_open = (\<lambda>p. True), can_dump = (\<lambda>p. True)\<rparr>"

definition xgb_readonly_disk :: filesystem where
  "xgb_readonly_disk =
     \<lparr>files = Map.empty, mkdir_ok = True, can_open = (\<lambda>p. p \<noteq> xgb_path), can_dump = (\<lambda>p. True)\<rparr>"

definition xgb_failing_disk :: filesystem where
  "xgb_failing_disk =
     \<lparr>files = Map.empty, mkdir_ok = True, can_open = (\<lambda>p. True), can_dump = (\<lambda>p. p \<noteq> xgb_path)\<rparr>"

definition scaler_readonly_disk :: filesystem where
  "scaler_readonly_disk =
     \<lparr>files = Map.empty, mkdir_ok = True,
      can_open = (\<lambda>p. p \<noteq> join_path ''/app/models/stockout'' ''stockout_scaler.pkl''),
      can_dump = (\<lambda>p. True)\<rparr>"

text \<open>
  Three located stores, a routing library that answers with the tour 0, 1, 2, end, and
  one that finds no solution.
\<close>

definition store_a :: StoreLocation where
  "store_a = \<lparr>store_id_sl = ''a'', store_name_sl = ''Store A'', lat = 12, lng = 77,
               priority = 50, estimated_visit_minutes = 15\<rparr>"

definition store_b :: StoreLocation where
  "store_b = \<lparr>store_id_sl = ''b'', store_name_sl = ''Store B'', lat = 13, lng = 77,
               priority = 50, estimated_visit_minutes = 15\<rparr>"

definition store_c :: StoreLocation where
  "store_c = \<lparr>store_id_sl = ''c'', store_name_sl = ''Store C'', lat = 13, lng = 78,
               priority = 50, estimated_visit_minutes = 15\<rparr>"

definition solving_optimizer :: RouteOptimizer where
  "solving_optimizer =
     \<lparr>ro_db = Some (\<lambda>ids company. Inr [store_a, store_b, store_c]),
      ro_solver = (\<lambda>int_matrix depot. Inr (Some Suc))\<rparr>"

definition failing_optimizer :: RouteOptimizer where
  "failing_optimizer =
     \<lparr>ro_db = Some (\<lambda>ids company. Inr [store_a, store_b, store_c]),
      ro_solver = (\<lambda>int_matrix depot. Inr None)\<rparr>"


section \<open>Floats\<close>

subsection \<open>Rounding to an integer and to a double\<close>

lemma round_half_even_of_int: "round_half_even (of_int k) = k"
  by (simp add: round_half_even_def)

lemma round_half_even_error: "\<bar>of_int (round_half_even x) - x\<bar> \<le> 1 / 2"
proof -
  have "of_int \<lfloor>x\<rfloor> \<le> x" "x < of_int \<lfloor>x\<rfloor> + 1"
    by linarith+
  then show ?thesis
    by (auto simp: round_half_even_def Let_def)
qed

lemma round_half_even_near:
  assumes "\<bar>x - of_int k\<bar> < 1 / 2"
  shows "round_half_even x = k"
proof -
  have "\<bar>of_int (round_half_even x) - x\<bar> \<le> 1 / 2"
    by (rule round_half_even_error)
  with assms have "\<bar>(of_int (round_half_even x) :: real) - of_int k\<bar> < 1"
    by linarith
  then have "\<bar>round_half_even x - k\<bar> < 1"
    by (metis of_int_diff of_int_abs of_int_less_1_iff)
  then show ?thesis by simp
qed

lemma round_half_even_nonneg: "0 \<le> x \<Longrightarrow> 0 \<le> round_half_even x"
proof -
  assume "0 \<le> x"
  then have "0 \<le> \<lfloor>x\<rfloor>" by simp
  then show ?thesis
    by (auto simp: round_half_even_def Let_def)
qed

lemma floor_log2:
  assumes "2 powr of_int e \<le> a" "a < 2 powr (of_int e + 1)"
  shows "\<lfloor>log 2 a\<rfloor> = e"
proof -
  have "(0::real) < 2 powr of_int e"
    by simp
  with assms(1) have pos: "0 < a"
    by linarith
  have "of_int e \<le> log 2 a"
    using assms(1) pos by (simp add: le_log_iff)
  moreover have "log 2 a < of_int e + 1"
    using assms(2) pos by (simp add: log_less_iff)
  ultimately show ?thesis
    by (simp add: floor_eq_iff)
qed

lemma fl_zero: "fl 0 = 0"
  by (simp add: fl_def)

lemma fl_eval:
  assumes "2 powr of_int e \<le> \<bar>x\<bar>" "\<bar>x\<bar> < 2 powr (of_int e + 1)"
  shows "fl x = of_int (round_half_even (x / 2 powr (of_int e - 52))) * 2 powr (of_int e - 52)"
proof -
  have "(0::real) < 2 powr of_int e"
    by simp
  with assms(1) have "x \<noteq> 0"
    by auto
  then show ?thesis
    by (simp add: fl_def floor_log2 [OF assms] Let_def)
qed

lemma fl_error: "\<bar>fl x - x\<bar> \<le> \<bar>x\<bar> / 2 ^ 53"
proof (cases "x = 0")
  case True
  then show ?thesis by (simp add: fl_zero)
next
  case False
  define e where "e = \<lfloor>log 2 \<bar>x\<bar>\<rfloor>"
  define u :: real where "u = 2 powr (of_int e - 52)"
  have u: "0 < u" by (simp add: u_def)
  have "of_int e \<le> log 2 \<bar>x\<bar>"
    by (simp add: e_def)
  then have lo: "2 powr of_int e \<le> \<bar>x\<bar>"
    using False by (simp add: le_log_iff)
  have f: "fl x = of_int (round_half_even (x / u)) * u"
    using False by (simp add: fl_def e_def u_def Let_def)
  have "\<bar>of_int (round_half_even (x / u)) - x / u\<bar> \<le> 1 / 2"
    by (rule round_half_even_error)
  then have "\<bar>of_int (round_half_even (x / u)) - x / u\<bar> * u \<le> (1 / 2) * u"
    using u by (intro mult_right_mono) simp_all
  moreover have "\<bar>of_int (round_half_even (x / u)) - x / u\<bar> * u = \<bar>fl x - x\<bar>"
  proof -
    have "fl x - x = (of_int (round_half_even (x / u)) - x / u) * u"
      using u by (simp add: f field_simps)
    then show ?thesis
      using u by (simp add: abs_mult)
  qed
  moreover have "(1 / 2) * u = 2 powr of_int e / 2 ^ 53"
  proof -
    have "u = 2 powr of_int e / 2 powr 52"
      by (simp add: u_def powr_diff)
    then show ?thesis by simp
  qed
  ultimately have "\<bar>fl x - x\<bar> \<le> 2 powr of_int e / 2 ^ 53"
    by simp
  also have "\<dots> \<le> \<bar>x\<bar> / 2 ^ 53"
    using lo by (intro divide_right_mono) simp_all
  finally show ?thesis .
qed

lemma fl_nonneg: "0 \<le> x \<Longrightarrow> 0 \<le> fl x"
  by (cases "x = 0") (auto simp: fl_def Let_def intro!: mult_nonneg_nonneg round_half_even_nonneg)

lemma fl_exact:
  assumes x: "x = of_int m * 2 powr of_int j" and m: "\<bar>m\<bar> < 2 ^ 53"
  shows "fl x = x"
proof (cases "x = 0")
  case True
  then show ?thesis by (simp add: fl_zero)
next
  case False
  define e where "e = \<lfloor>log 2 \<bar>x\<bar>\<rfloor>"
  define u :: real where "u = 2 powr (of_int e - 52)"
  have u: "0 < u" by (simp add: u_def)
  have "of_int e \<le> log 2 \<bar>x\<bar>"
    by (simp add: e_def)
  then have "2 powr of_int e \<le> \<bar>x\<bar>"
    using False by (simp add: le_log_iff)
  also have "\<bar>x\<bar> = of_int \<bar>m\<bar> * 2 powr of_int j"
    by (simp add: x abs_mult)
  also have "\<dots> < 2 ^ 53 * 2 powr of_int j"
  proof -
    have "(of_int \<bar>m\<bar> :: real) < of_int (2 ^ 53)"
      using m by (simp only: of_int_less_iff)
    then show ?thesis by simp
  qed
  also have "\<dots> = 2 powr (53 + of_int j)"
    by (simp add: powr_add)
  finally have "of_int e < (53 + of_int j :: real)"
    by simp
  then have le: "0 \<le> 52 + j - e"
    by linarith
  have "x / u = of_int m * 2 powr (of_int j - (of_int e - 52))"
    by (simp add: x u_def powr_diff)
  also have "of_int j - (of_int e - 52) = (of_int (52 + j - e) :: real)"
    by simp
  also have "2 powr (of_int (52 + j - e)) = (2::real) ^ nat (52 + j - e)"
    using le by (simp only: powr_real_of_int) simp
  finally have "x / u = of_int (m * 2 ^ nat (52 + j - e))"
    by simp
  then have "of_int (round_half_even (x / u)) = x / u"
    by (simp only: round_half_even_of_int)
  then have "fl x = x / u * u"
    using False by (simp add: fl_def e_def u_def Let_def)
  with u show ?thesis by simp
qed

lemma fl_of_int: "\<bar>k\<bar> < 2 ^ 53 \<Longrightarrow> fl (of_int k) = of_int k"
  using fl_exact [of "of_int k" k 0] by simp

text \<open>Evaluation for a value in a known binade.\<close>

lemma fl_eval_lt1:
  assumes "1 / 2 ^ n \<le> \<bar>x\<bar>" "\<bar>x\<bar> < 2 / 2 ^ n"
  shows "fl x = of_int (round_half_even (x * 2 ^ (52 + n))) / 2 ^ (52 + n)"
proof -
  have p0: "2 powr real n = (2::real) ^ n"
    by (rule powr_realpow) simp
  have p: "2 powr of_int (- int n) = 1 / (2::real) ^ n"
    by (simp add: powr_minus p0 inverse_eq_divide)
  have q: "2 powr (of_int (- int n) + 1) = 2 / (2::real) ^ n"
    unfolding powr_add p by simp
  have r: "2 powr (of_int (- int n) - 52) = 1 / (2::real) ^ (52 + n)"
    unfolding powr_diff p by (simp add: power_add)
  show ?thesis
    using fl_eval [of "- int n" x] assms unfolding p q r by simp
qed

lemma fl_eval_ge1:
  assumes "2 ^ n \<le> \<bar>x\<bar>" "\<bar>x\<bar> < 2 * 2 ^ n" "n \<le> 52"
  shows "fl x = of_int (round_half_even (x * 2 ^ (52 - n))) / 2 ^ (52 - n)"
proof -
  have p0: "2 powr real n = (2::real) ^ n"
    by (rule powr_realpow) simp
  have p: "2 powr of_int (int n) = (2::real) ^ n"
    by (simp add: p0)
  have q: "2 powr (of_int (int n) + 1) = 2 * (2::real) ^ n"
    unfolding powr_add p by simp
  have "2 powr (of_int (int n) - 52) = (2::real) ^ n / 2 ^ 52"
    unfolding powr_diff p by simp
  also have "\<dots> = 1 / 2 ^ (52 - n)"
    using assms(3) by (simp add: power_diff)
  finally have r: "2 powr (of_int (int n) - 52) = 1 / (2::real) ^ (52 - n)" .
  show ?thesis
    using fl_eval [of "int n" x] assms(1,2) unfolding p q r by simp
qed

lemma fl_exact_div:
  assumes "\<bar>m\<bar> < 2 ^ 53"
  shows "fl (of_int m / 2 ^ n) = of_int m / 2 ^ n"
proof -
  have "2 powr real n = (2::real) ^ n"
    by (rule powr_realpow) simp
  then have "(of_int m :: real) / 2 ^ n = of_int m * 2 powr of_int (- int n)"
    by (simp add: powr_minus divide_inverse)
  then show ?thesis
    using assms by (rule fl_exact)
qed

lemma fl_zero_iff: "fl x = 0 \<longleftrightarrow> x = 0"
proof
  assume z: "fl x = 0"
  show "x = 0"
  proof (rule ccontr)
    assume "x \<noteq> 0"
    then have "\<bar>x\<bar> / 2 ^ 53 < \<bar>x\<bar>"
      by (simp add: field_simps)
    with fl_error [of x] z show False
      by simp
  qed
qed (simp add: fl_zero)

lemma fl_pos: "0 < x \<Longrightarrow> 0 < fl x"
  using fl_nonneg [of x] fl_zero_iff [of x] by (simp add: less_le)

lemma fl_half: "fl (1 / 2) = 1 / 2"
  using fl_exact_div [of 1 1] by simp

lemma fl_numeral: "\<bar>numeral k :: int\<bar> < 2 ^ 53 \<Longrightarrow> fl (numeral k) = numeral k"
  using fl_of_int [of "numeral k"] by simp

lemma round_half_even_le:
  assumes "x \<le> of_int k"
  shows "round_half_even x \<le> k"
proof -
  have f: "\<lfloor>x\<rfloor> \<le> k"
    using assms by (simp add: floor_le_iff)
  show ?thesis
  proof (cases "\<lfloor>x\<rfloor> = k")
    case True
    then have "of_int k \<le> x"
      by (metis of_int_floor_le)
    with assms have "x = of_int k"
      by simp
    then show ?thesis
      by (simp add: round_half_even_of_int)
  next
    case False
    with f have "\<lfloor>x\<rfloor> + 1 \<le> k"
      by simp
    then show ?thesis
      by (auto simp: round_half_even_def Let_def)
  qed
qed

lemma fl_le_one:
  assumes "x \<le> 1"
  shows "fl x \<le> 1"
proof -
  consider "x = 0" | "x < 0" | "x = 1" | "0 < x" "x < 1"
    using assms by linarith
  then show ?thesis
  proof cases
    case 1
    then show ?thesis by (simp add: fl_zero)
  next
    case 2
    define u :: real where "u = 2 powr (of_int \<lfloor>log 2 \<bar>x\<bar>\<rfloor> - 52)"
    have u: "0 < u" by (simp add: u_def)
    have "x / u \<le> of_int 0"
      using 2 u by (simp add: divide_le_0_iff)
    then have "round_half_even (x / u) \<le> 0"
      by (rule round_half_even_le)
    then have "of_int (round_half_even (x / u)) * u \<le> 0"
      using u by (simp add: mult_le_0_iff)
    moreover have "fl x = of_int (round_half_even (x / u)) * u"
      using 2 by (simp add: fl_def u_def Let_def)
    ultimately show ?thesis by simp
  next
    case 3
    then show ?thesis
      using fl_of_int [of 1] by simp
  next
    case 4
    define e where "e = \<lfloor>log 2 \<bar>x\<bar>\<rfloor>"
    define u :: real where "u = 2 powr (of_int e - 52)"
    have u: "0 < u" by (simp add: u_def)
    have "log 2 x < 0"
      using 4 by simp
    then have e: "e \<le> - 1"
      using 4 by (simp add: e_def floor_le_iff)
    have "log 2 x < of_int e + 1"
      using 4 by (simp add: e_def)
    then have "x < 2 powr (of_int e + 1)"
      using 4 by (simp add: log_less_iff)
    also have "\<dots> = 2 ^ 53 * u"
      by (simp add: u_def powr_diff powr_add)
    finally have "x / u < 2 ^ 53"
      using u by (simp add: field_simps)
    then have "x / u \<le> of_int (2 ^ 53)"
      by simp
    then have "round_half_even (x / u) \<le> 2 ^ 53"
      by (rule round_half_even_le)
    then have "(of_int (round_half_even (x / u)) :: real) \<le> of_int (2 ^ 53)"
      by (simp only: of_int_le_iff)
    then have "of_int (round_half_even (x / u)) * u \<le> 2 ^ 53 * u"
      using u by simp
    also have "2 ^ 53 * u = 2 powr (of_int e + 1)"
      by (simp add: u_def powr_diff powr_add)
    also have "\<dots> \<le> 2 powr 0"
      using e by (intro powr_mono) simp_all
    finally have "of_int (round_half_even (x / u)) * u \<le> 1"
      by simp
    moreover have "fl x = of_int (round_half_even (x / u)) * u"
      using 4 by (simp add: fl_def u_def e_def Let_def)
    ultimately show ?thesis by simp
  qed
qed


lemma fl_one: "fl 1 = 1"
  using fl_of_int [of 1] by simp

lemma fl_half_numeral: "\<bar>numeral k :: int\<bar> < 2 ^ 53 \<Longrightarrow> fl (numeral k / 2) = numeral k / 2"
  using fl_exact_div [of "numeral k" 1] by simp

lemma fl_power2: "fl (2 ^ n) = 2 ^ n"
  using fl_exact [of "2 ^ n" 1 "int n"] by (simp add: powr_realpow)

subsection \<open>The decimal literals of the source\<close>

lemma dec_1_10: "dec 1 10 = 3602879701896397 / 2 ^ 55"
  using fl_eval_lt1 [of 4 "1 / 10"] by (simp add: dec_def round_half_even_def)

lemma dec_2_10: "dec 2 10 = 3602879701896397 / 2 ^ 54"
  using fl_eval_lt1 [of 3 "2 / 10"] by (simp add: dec_def round_half_even_def)

lemma dec_3_10: "dec 3 10 = 5404319552844595 / 2 ^ 54"
  using fl_eval_lt1 [of 2 "3 / 10"] by (simp add: dec_def round_half_even_def)

lemma dec_4_10: "dec 4 10 = 3602879701896397 / 2 ^ 53"
  using fl_eval_lt1 [of 2 "4 / 10"] by (simp add: dec_def round_half_even_def)

lemma dec_6_10: "dec 6 10 = 5404319552844595 / 2 ^ 53"
  using fl_eval_lt1 [of 1 "6 / 10"] by (simp add: dec_def round_half_even_def)

lemma dec_7_10: "dec 7 10 = 3152519739159347 / 2 ^ 52"
  using fl_eval_lt1 [of 1 "7 / 10"] by (simp add: dec_def round_half_even_def)

lemma dec_8_10: "dec 8 10 = 3602879701896397 / 2 ^ 52"
  using fl_eval_lt1 [of 1 "8 / 10"] by (simp add: dec_def round_half_even_def)

lemma dec_9_10: "dec 9 10 = 8106479329266893 / 2 ^ 53"
  using fl_eval_lt1 [of 1 "9 / 10"] by (simp add: dec_def round_half_even_def)

lemma dec_13_10: "dec 13 10 = 5854679515581645 / 2 ^ 52"
  using fl_eval_ge1 [of 0 "13 / 10"] by (simp add: dec_def round_half_even_def)

lemma dec_5_100: "dec 5 100 = 3602879701896397 / 2 ^ 56"
  using fl_eval_lt1 [of 5 "5 / 100"] by (simp add: dec_def round_half_even_def)

lemma dec_15_100: "dec 15 100 = 5404319552844595 / 2 ^ 55"
  using fl_eval_lt1 [of 3 "15 / 100"] by (simp add: dec_def round_half_even_def)

lemma dec_35_100: "dec 35 100 = 3152519739159347 / 2 ^ 53"
  using fl_eval_lt1 [of 2 "35 / 100"] by (simp add: dec_def round_half_even_def)

lemma dec_95_100: "dec 95 100 = 4278419646001971 / 2 ^ 52"
  using fl_eval_lt1 [of 1 "95 / 100"] by (simp add: dec_def round_half_even_def)

lemma dec_33_100: "dec 33 100 = 5944751508129055 / 2 ^ 54"
  using fl_eval_lt1 [of 2 "33 / 100"] by (simp add: dec_def round_half_even_def)

lemma dec_7999_10000: "dec 7999 10000 = 900607335483415 / 2 ^ 50"
  using fl_eval_lt1 [of 1 "7999 / 10000"] by (simp add: dec_def round_half_even_def)

lemma dec_23_10: "dec 23 10 = 2589569785738035 / 2 ^ 50"
  using fl_eval_ge1 [of 1 "23 / 10"] by (simp add: dec_def round_half_even_def)

lemma dec_16_10: "dec 16 10 = 3602879701896397 / 2 ^ 51"
  using fl_eval_ge1 [of 0 "16 / 10"] by (simp add: dec_def round_half_even_def)

lemma dec_nonneg: "0 \<le> m \<Longrightarrow> 0 < d \<Longrightarrow> 0 \<le> dec m d"
  by (simp add: dec_def fl_nonneg)

lemma dec_pos: "0 < m \<Longrightarrow> 0 < d \<Longrightarrow> 0 < dec m d"
  by (simp add: dec_def fl_pos)

subsection \<open>Rounding to decimals\<close>

lemma py_round_near:
  assumes "\<bar>x * 10 ^ n - of_int k\<bar> < 1 / 2"
  shows "py_round x n = fl (of_int k / 10 ^ n)"
  using round_half_even_near [OF assms] by (simp add: py_round_def round_decimal_def)

lemma py_round_0: "\<bar>x - of_int k\<bar> < 1 / 2 \<Longrightarrow> py_round x 0 = fl (of_int k)"
  using py_round_near [of x 0 k] by simp

lemma py_round_1: "\<bar>x * 10 - of_int k\<bar> < 1 / 2 \<Longrightarrow> py_round x 1 = dec k 10"
  using py_round_near [of x 1 k] by (simp add: dec_def)

lemma py_round_2: "\<bar>x * 100 - of_int k\<bar> < 1 / 2 \<Longrightarrow> py_round x 2 = dec k 100"
  using py_round_near [of x 2 k] by (simp add: dec_def)

lemma py_round_3: "\<bar>x * 1000 - of_int k\<bar> < 1 / 2 \<Longrightarrow> py_round x 3 = dec k 1000"
  using py_round_near [of x 3 k] by (simp add: dec_def)

lemma py_round_zero: "py_round 0 n = 0"
  by (simp add: py_round_def round_decimal_def round_half_even_def fl_zero)

lemma py_round_int:
  assumes "\<bar>k\<bar> < 2 ^ 53"
  shows "py_round (of_int k) n = of_int k"
proof -
  have "of_int k * 10 ^ n = (of_int (k * 10 ^ n) :: real)"
    by simp
  then have "round_half_even (of_int k * 10 ^ n) = k * 10 ^ n"
    by (simp only: round_half_even_of_int)
  then show ?thesis
    using assms by (simp add: py_round_def round_decimal_def fl_of_int)
qed

lemma py_round_nonneg: "0 \<le> x \<Longrightarrow> 0 \<le> py_round x n"
  by (simp add: py_round_def round_decimal_def fl_nonneg round_half_even_nonneg)

lemma py_round_le_one:
  assumes "x \<le> 1"
  shows "py_round x n \<le> 1"
proof -
  have "x * 10 ^ n \<le> of_int (10 ^ n)"
    using assms by simp
  then have "round_half_even (x * 10 ^ n) \<le> 10 ^ n"
    by (rule round_half_even_le)
  then have "(of_int (round_half_even (x * 10 ^ n)) :: real) \<le> of_int (10 ^ n)"
    by (simp only: of_int_le_iff)
  then have "round_decimal x n \<le> 1"
    by (simp add: round_decimal_def field_simps)
  then show ?thesis
    unfolding py_round_def by (rule fl_le_one)
qed

section \<open>Stock-out scoring and scanning\<close>

subsection \<open>The concrete predictors\<close>

lemmas fetch_eval =
  fetch_features_def demo_predictor_def demo_stock_db_def consumption_block_def
  inventory_block_def exact_numerics_def zero_features_def FEATURE_NAMES_def get_feature_def
  today_def fdiv_def fl_one fl_zero fl_numeral Let_def

lemma fetch_rice:
  "\<exists>fs. fetch_features (demo_predictor st x) ''s1'' ''p1'' cid
          = ((''Store 1'', ''Rice'', fs),
             [Warning ''Failed to fetch consumption data for %s/%s.'' [''s1'', ''p1'']])
      \<and> map (\<lambda>f. get_feature fs f 0) FEATURE_NAMES = [x, 1, 0, 3, 2, 4, 11, 0, 0, 0, fl x, 0]
      \<and> get_feature fs ''lead_time_days'' 3 = 3"
  by (simp add: fetch_eval)

lemma fetch_tea:
  "\<exists>fs. fetch_features (demo_predictor st x) ''s2'' ''p2'' cid
          = ((''Store 2'', ''Tea'', fs),
             [Warning ''Failed to fetch consumption data for %s/%s.'' [''s2'', ''p2'']])
      \<and> map (\<lambda>f. get_feature fs f 0) FEATURE_NAMES = [2, 1, 0, 3, 2, 4, 11, 0, 0, 0, fl 2, 0]
      \<and> get_feature fs ''lead_time_days'' 3 = 3"
  by (simp add: fetch_eval)

lemma fetch_soap:
  "\<exists>fs. fetch_features (demo_predictor st x) ''s3'' ''p3'' cid
          = ((''Store 3'', ''Soap'', fs),
             [Warning ''Failed to fetch consumption data for %s/%s.'' [''s3'', ''p3'']])
      \<and> map (\<lambda>f. get_feature fs f 0) FEATURE_NAMES = [0, 5, 0, 3, 2, 4, 11, 0, 0, 0, 0, 0]
      \<and> get_feature fs ''lead_time_days'' 3 = 3"
  by (simp add: fetch_eval)


lemma py_round_dec_1_10: "py_round (dec 1 10) 3 = dec 1 10"
proof -
  have "py_round (dec 1 10) 3 = dec 100 1000"
    by (rule py_round_3) (simp add: dec_1_10)
  then show ?thesis
    by (simp add: dec_def)
qed

lemma py_round_dec_95_100: "py_round (dec 95 100) 3 = dec 95 100"
proof -
  have "py_round (dec 95 100) 3 = dec 950 1000"
    by (rule py_round_3) (simp add: dec_95_100)
  then show ?thesis
    by (simp add: dec_def)
qed

lemma py_round_dec_9_10: "py_round (dec 9 10) 3 = dec 9 10"
proof -
  have "py_round (dec 9 10) 3 = dec 900 1000"
    by (rule py_round_3) (simp add: dec_9_10)
  then show ?thesis
    by (simp add: dec_def)
qed

lemma dec_unit_interval:
  "0 \<le> dec 1 10" "dec 1 10 \<le> 1" "0 \<le> dec 95 100" "dec 95 100 \<le> 1" "0 \<le> dec 9 10" "dec 9 10 \<le> 1"
  by (simp_all add: dec_1_10 dec_95_100 dec_9_10)


lemmas rule_eval =
  predict_def predict_from_def compute_probability_def rule_based_probability_def
  stockout_risk_level_def stockout_factors_def fadd_def fsub_def fmul_def fdiv_def
  fl_zero fl_one fl_numeral fl_half_numeral fl_half not_less Let_def

lemma py_round_halves: "py_round (185 / 2) 0 = 92" "py_round (33 / 2) 0 = 16"
  by (simp_all add: py_round_def round_decimal_def round_half_even_def fl_numeral)

lemma py_round_small: "py_round 0 n = 0" "py_round 1 n = 1" "py_round 2 n = 2" "py_round 5 n = 5"
  "py_round 999 n = 999"
  using py_round_int [of 0 n] py_round_int [of 1 n] py_round_int [of 2 n] py_round_int [of 5 n]
    py_round_int [of 999 n]
  by simp_all

lemma dec_order:
  "dec 8 10 \<le> dec 9 10" "dec 8 10 \<le> dec 95 100" "\<not> dec 8 10 \<le> dec 1 10" "\<not> dec 6 10 \<le> dec 1 10"
  "\<not> dec 4 10 \<le> dec 1 10" "dec 7 10 \<le> dec 9 10" "dec 7 10 \<le> dec 95 100" "\<not> dec 7 10 \<le> dec 1 10"
  "dec 9 10 \<le> dec 95 100" "dec 1 10 < dec 95 100"
  by (simp_all add: dec_1_10 dec_4_10 dec_6_10 dec_7_10 dec_8_10 dec_9_10 dec_95_100)

lemma predict_tea: "predict (demo_predictor no_state x) ''s2'' ''p2'' cid = Inr tea_alert"
proof -
  obtain fs where f: "fetch_features (demo_predictor no_state x) ''s2'' ''p2'' cid
          = ((''Store 2'', ''Tea'', fs),
             [Warning ''Failed to fetch consumption data for %s/%s.'' [''s2'', ''p2'']])"
    and v: "map (\<lambda>f. get_feature fs f 0) FEATURE_NAMES = [2, 1, 0, 3, 2, 4, 11, 0, 0, 0, fl 2, 0]"
    and l: "get_feature fs ''lead_time_days'' 3 = 3"
    using fetch_tea [of no_state x cid] by (elim exE conjE) (rule that)
  have g: "get_feature fs ''avg_daily_consumption'' 0 = 1" "get_feature fs ''current_stock'' 0 = 2"
    "get_feature fs ''consumption_variance'' 0 = 0" "get_feature fs ''trend_slope'' 0 = 0"
    "get_feature fs ''days_since_last_restock'' 0 = 0"
    using v by (simp_all add: FEATURE_NAMES_def)
  have s: "sp_state (demo_predictor no_state x) = no_state" "model no_state = None"
    by (simp_all add: demo_predictor_def no_state_def)
  show ?thesis
    by (simp add: rule_eval f g l s py_round_dec_9_10 py_round_small py_round_halves
        dec_unit_interval dec_order tea_alert_def)
qed

lemma predict_soap: "predict (demo_predictor no_state x) ''s3'' ''p3'' cid = Inr soap_alert"
proof -
  obtain fs where f: "fetch_features (demo_predictor no_state x) ''s3'' ''p3'' cid
          = ((''Store 3'', ''Soap'', fs),
             [Warning ''Failed to fetch consumption data for %s/%s.'' [''s3'', ''p3'']])"
    and v: "map (\<lambda>f. get_feature fs f 0) FEATURE_NAMES = [0, 5, 0, 3, 2, 4, 11, 0, 0, 0, 0, 0]"
    and l: "get_feature fs ''lead_time_days'' 3 = 3"
    using fetch_soap [of no_state x cid] by (elim exE conjE) (rule that)
  have g: "get_feature fs ''avg_daily_consumption'' 0 = 5" "get_feature fs ''current_stock'' 0 = 0"
    "get_feature fs ''consumption_variance'' 0 = 0" "get_feature fs ''trend_slope'' 0 = 0"
    "get_feature fs ''days_since_last_restock'' 0 = 0"
    using v by (simp_all add: FEATURE_NAMES_def)
  have s: "sp_state (demo_predictor no_state x) = no_state" "model no_state = None"
    by (simp_all add: demo_predictor_def no_state_def)
  show ?thesis
    by (simp add: rule_eval f g l s py_round_dec_95_100 py_round_small py_round_halves
        dec_unit_interval dec_order soap_alert_def)
qed

lemma predict_rice:
  "\<exists>r. predict (demo_predictor no_state 100) ''s1'' ''p1'' cid = Inr r \<and> probability r = dec 1 10"
proof -
  obtain fs where f: "fetch_features (demo_predictor no_state 100) ''s1'' ''p1'' cid
          = ((''Store 1'', ''Rice'', fs),
             [Warning ''Failed to fetch consumption data for %s/%s.'' [''s1'', ''p1'']])"
    and v: "map (\<lambda>f. get_feature fs f 0) FEATURE_NAMES = [100, 1, 0, 3, 2, 4, 11, 0, 0, 0, fl 100, 0]"
    and l: "get_feature fs ''lead_time_days'' 3 = 3"
    using fetch_rice [of no_state 100 cid] by (elim exE conjE) (rule that)
  have g: "get_feature fs ''avg_daily_consumption'' 0 = 1" "get_feature fs ''current_stock'' 0 = 100"
    using v by (simp_all add: FEATURE_NAMES_def)
  have s: "sp_state (demo_predictor no_state 100) = no_state" "model no_state = None"
    by (simp_all add: demo_predictor_def no_state_def)
  show ?thesis
    by (simp add: rule_eval f g l s py_round_dec_1_10 dec_unit_interval)
qed


lemma forest_sel:
  "sp_state (demo_predictor forest_state x) = forest_state"
  "model forest_state = Some (Model forest)" "scaler forest_state = Some (Scaler (\<lambda>v. Inr v))"
  by (simp_all add: demo_predictor_def forest_state_def)

lemmas forest_eval =
  predict_def predict_from_def compute_probability_def trained_probability_def transform_def
  model_predict_def forest_def stockout_risk_level_def stockout_factors_def
  fadd_def fsub_def fmul_def fdiv_def
  fl_zero fl_one fl_numeral fl_half_numeral fl_half not_less Let_def

lemma forest_tea: "predict (demo_predictor forest_state x) ''s2'' ''p2'' cid = Inr tea_alert"
proof -
  obtain fs where f: "fetch_features (demo_predictor forest_state x) ''s2'' ''p2'' cid
          = ((''Store 2'', ''Tea'', fs),
             [Warning ''Failed to fetch consumption data for %s/%s.'' [''s2'', ''p2'']])"
    and v: "map (\<lambda>f. get_feature fs f 0) FEATURE_NAMES = [2, 1, 0, 3, 2, 4, 11, 0, 0, 0, fl 2, 0]"
    and l: "get_feature fs ''lead_time_days'' 3 = 3"
    using fetch_tea [of forest_state x cid] by (elim exE conjE) (rule that)
  have g: "get_feature fs ''avg_daily_consumption'' 0 = 1" "get_feature fs ''current_stock'' 0 = 2"
    "get_feature fs ''consumption_variance'' 0 = 0" "get_feature fs ''trend_slope'' 0 = 0"
    "get_feature fs ''days_since_last_restock'' 0 = 0"
    using v by (simp_all add: FEATURE_NAMES_def)
  show ?thesis
    by (simp add: forest_eval f v g l forest_sel py_round_dec_9_10 py_round_small py_round_halves
        dec_unit_interval dec_order tea_alert_def)
qed

lemma forest_soap: "predict (demo_predictor forest_state x) ''s3'' ''p3'' cid = Inr soap_alert"
proof -
  obtain fs where f: "fetch_features (demo_predictor forest_state x) ''s3'' ''p3'' cid
          = ((''Store 3'', ''Soap'', fs),
             [Warning ''Failed to fetch consumption data for %s/%s.'' [''s3'', ''p3'']])"
    and v: "map (\<lambda>f. get_feature fs f 0) FEATURE_NAMES = [0, 5, 0, 3, 2, 4, 11, 0, 0, 0, 0, 0]"
    and l: "get_feature fs ''lead_time_days'' 3 = 3"
    using fetch_soap [of forest_state x cid] by (elim exE conjE) (rule that)
  have g: "get_feature fs ''avg_daily_consumption'' 0 = 5" "get_feature fs ''current_stock'' 0 = 0"
    "get_feature fs ''consumption_variance'' 0 = 0" "get_feature fs ''trend_slope'' 0 = 0"
    "get_feature fs ''days_since_last_restock'' 0 = 0"
    using v by (simp_all add: FEATURE_NAMES_def)
  show ?thesis
    by (simp add: forest_eval f v g l forest_sel py_round_dec_95_100 py_round_small py_round_halves
        dec_unit_interval dec_order soap_alert_def)
qed

lemma forest_rice:
  "\<exists>r. predict (demo_predictor forest_state 100) ''s1'' ''p1'' cid = Inr r \<and> probability r = dec 1 10"
proof -
  obtain fs where f: "fetch_features (demo_predictor forest_state 100) ''s1'' ''p1'' cid
          = ((''Store 1'', ''Rice'', fs),
             [Warning ''Failed to fetch consumption data for %s/%s.'' [''s1'', ''p1'']])"
    and v: "map (\<lambda>f. get_feature fs f 0) FEATURE_NAMES = [100, 1, 0, 3, 2, 4, 11, 0, 0, 0, fl 100, 0]"
    and l: "get_feature fs ''lead_time_days'' 3 = 3"
    using fetch_rice [of forest_state 100 cid] by (elim exE conjE) (rule that)
  show ?thesis
    by (simp add: forest_eval f v l forest_sel py_round_dec_1_10 dec_unit_interval)
qed

lemma forest_rice_overflow:
  "predict (demo_predictor forest_state huge_stock) ''s1'' ''p1'' cid = Inl ValueError"
proof -
  obtain fs where f: "fetch_features (demo_predictor forest_state huge_stock) ''s1'' ''p1'' cid
          = ((''Store 1'', ''Rice'', fs),
             [Warning ''Failed to fetch consumption data for %s/%s.'' [''s1'', ''p1'']])"
    and v: "map (\<lambda>f. get_feature fs f 0) FEATURE_NAMES
              = [huge_stock, 1, 0, 3, 2, 4, 11, 0, 0, 0, fl huge_stock, 0]"
    using fetch_rice [of forest_state huge_stock cid] by (elim exE conjE) (rule that)
  have h: "forest (map (\<lambda>f. get_feature fs f 0) FEATURE_NAMES) = Inl ValueError"
    unfolding v forest_def by (simp add: huge_stock_def)
  show ?thesis
    unfolding predict_def predict_from_def compute_probability_def trained_probability_def
    by (simp add: f h forest_sel transform_def model_predict_def)
qed

lemma predict_log_demo:
  "predict_log (demo_predictor st x) ''s1'' ''p1'' cid
     = [Warning ''Failed to fetch consumption data for %s/%s.'' [''s1'', ''p1'']]"
  "predict_log (demo_predictor st x) ''s2'' ''p2'' cid
     = [Warning ''Failed to fetch consumption data for %s/%s.'' [''s2'', ''p2'']]"
  "predict_log (demo_predictor st x) ''s3'' ''p3'' cid
     = [Warning ''Failed to fetch consumption data for %s/%s.'' [''s3'', ''p3'']]"
proof -
  show "predict_log (demo_predictor st x) ''s1'' ''p1'' cid
     = [Warning ''Failed to fetch consumption data for %s/%s.'' [''s1'', ''p1'']]"
    using fetch_rice [of st x cid] unfolding predict_log_def by (elim exE conjE) simp
  show "predict_log (demo_predictor st x) ''s2'' ''p2'' cid
     = [Warning ''Failed to fetch consumption data for %s/%s.'' [''s2'', ''p2'']]"
    using fetch_tea [of st x cid] unfolding predict_log_def by (elim exE conjE) simp
  show "predict_log (demo_predictor st x) ''s3'' ''p3'' cid
     = [Warning ''Failed to fetch consumption data for %s/%s.'' [''s3'', ''p3'']]"
    using fetch_soap [of st x cid] unfolding predict_log_def by (elim exE conjE) simp
qed

lemma demo_predictor_sel:
  "sp_db (demo_predictor st x) = Some (demo_stock_db x)"
  "STOCKOUT_THRESHOLD (sp_settings (demo_predictor st x)) = dec 7 10"
  "q_combos (demo_stock_db x) c l = Inr [(''s1'', ''p1''), (''s2'', ''p2''), (''s3'', ''p3'')]"
  by (simp_all add: demo_predictor_def demo_stock_db_def default_settings_def)

lemma alert_probability: "probability tea_alert = dec 9 10" "probability soap_alert = dec 95 100"
  by (simp_all add: tea_alert_def soap_alert_def)

lemma neg_dec_order: "- dec 95 100 \<le> - dec 9 10" "\<not> - dec 9 10 \<le> - dec 95 100"
  "\<not> dec 95 100 \<le> dec 9 10"
  by (simp_all add: dec_9_10 dec_95_100)


subsection \<open>The rule-based probability\<close>

text \<open>
  C2, as stated, fails: with no consumption the rule-based path answers 0.1 before it
  looks at the stock. Without a database every feature is 0, so the stock is not
  positive, and the probability is 0.1.
\<close>

theorem stockout_zero_stock_counterexample:
  "predict offline_predictor ''s1'' ''p1'' None =
     Inr \<lparr>store_id = ''s1'', product_id = ''p1'', store_name = [], product_name = [],
          probability = dec 1 10, days_until_stockout = 999, current_stock = 0,
          avg_daily_consumption = 0, lead_time_days = 0, suggested_reorder_qty = 0,
          risk_level = ''low'', factors = [ZeroCurrentStock]\<rparr>
   \<and> dec 1 10 < dec 95 100"
proof -
  have o: "fetch_features offline_predictor ''s1'' ''p1'' None = (([], [], zero_features), [])"
    by (simp add: fetch_features_def offline_predictor_def)
  have z: "get_feature zero_features ''avg_daily_consumption'' 0 = 0"
    "get_feature zero_features ''current_stock'' 0 = 0"
    "get_feature zero_features ''lead_time_days'' 3 = 0"
    "get_feature zero_features ''consumption_variance'' 0 = 0"
    "get_feature zero_features ''trend_slope'' 0 = 0"
    "get_feature zero_features ''days_since_last_restock'' 0 = 0"
    by (simp_all add: zero_features_def FEATURE_NAMES_def get_feature_def)
  have s: "sp_state offline_predictor = no_state" "model no_state = None"
    by (simp_all add: offline_predictor_def no_state_def)
  show ?thesis
    by (simp add: rule_eval o z s py_round_dec_1_10 py_round_small dec_unit_interval dec_order)
qed

text \<open>
  C2, amended: on the rule-based path (model or scaler absent) a prediction is
  returned for every feature dictionary. When the average daily consumption is not
  positive the probability is 0.1, whatever the stock; when it is positive and the
  current stock is not, the probability is at least 0.95 (it is 0.95), whatever the
  other features are. \<open>predict\<close> returns this prediction for the features it fetched.
\<close>

theorem stockout_zero_stock:
  assumes "model st = None \<or> scaler st = None"
  shows "\<exists>r. predict_from st sid pid (sname, pname, fs) = Inr r
       \<and> (get_feature fs ''avg_daily_consumption'' 0 \<le> 0 \<longrightarrow> probability r = dec 1 10)
       \<and> (0 < get_feature fs ''avg_daily_consumption'' 0 \<and> get_feature fs ''current_stock'' 0 \<le> 0
            \<longrightarrow> probability r = dec 95 100 \<and> probability r \<ge> dec 95 100)
       \<and> (sp_state self = st \<and> fst (fetch_features self sid pid cid) = (sname, pname, fs)
            \<longrightarrow> predict self sid pid cid = Inr r)"
proof -
  define avg where "avg = get_feature fs ''avg_daily_consumption'' 0"
  define cur where "cur = get_feature fs ''current_stock'' 0"
  define lead where "lead = get_feature fs ''lead_time_days'' 3"
  have c: "compute_probability st fs = Inr (rule_based_probability avg cur lead)"
    using assms by (auto simp: compute_probability_def avg_def cur_def lead_def split: option.splits)
  consider "avg \<le> 0" | "0 < avg" "cur \<le> 0" | "0 < avg" "0 < cur"
    by linarith
  then show ?thesis
  proof cases
    case 1
    then have "rule_based_probability avg cur lead = dec 1 10"
      by (simp add: rule_based_probability_def)
    with 1 show ?thesis
      unfolding predict_def predict_from_def
      by (simp add: c avg_def [symmetric] py_round_dec_1_10 dec_unit_interval not_less Let_def)
  next
    case 2
    then have "rule_based_probability avg cur lead = dec 95 100"
      by (simp add: rule_based_probability_def)
    with 2 show ?thesis
      unfolding predict_def predict_from_def
      by (simp add: c avg_def [symmetric] cur_def [symmetric] py_round_dec_95_100
          dec_unit_interval not_less Let_def)
  next
    case 3
    have "rule_based_probability avg cur lead \<in> {dec 9 10, dec 6 10, dec 3 10, dec 1 10}"
      using 3 by (simp add: rule_based_probability_def Let_def)
    then have "0 \<le> rule_based_probability avg cur lead" "rule_based_probability avg cur lead \<le> 1"
      by (auto simp: dec_9_10 dec_6_10 dec_3_10 dec_1_10)
    then have "0 \<le> py_round (rule_based_probability avg cur lead) 3"
      "py_round (rule_based_probability avg cur lead) 3 \<le> 1"
      by (simp_all add: py_round_nonneg py_round_le_one)
    with 3 show ?thesis
      unfolding predict_def predict_from_def
      by (simp add: c avg_def [symmetric] cur_def [symmetric] not_less Let_def)
  qed
qed

theorem stockout_zero_stock_witness:
  "(\<exists>r. predict (demo_predictor no_state 100) ''s3'' ''p3'' None = Inr r
        \<and> probability r = dec 95 100 \<and> probability r \<ge> dec 95 100)
   \<and> (\<exists>r. predict offline_predictor ''s1'' ''p1'' None = Inr r \<and> probability r = dec 1 10)"
proof -
  obtain fs where f: "fetch_features (demo_predictor no_state 100) ''s3'' ''p3'' None
          = ((''Store 3'', ''Soap'', fs),
             [Warning ''Failed to fetch consumption data for %s/%s.'' [''s3'', ''p3'']])"
    and v: "map (\<lambda>f. get_feature fs f 0) FEATURE_NAMES = [0, 5, 0, 3, 2, 4, 11, 0, 0, 0, 0, 0]"
    using fetch_soap [of no_state 100 None] by (elim exE conjE) (rule that)
  have g: "get_feature fs ''avg_daily_consumption'' 0 = 5" "get_feature fs ''current_stock'' 0 = 0"
    using v by (simp_all add: FEATURE_NAMES_def)
  have n: "model no_state = None \<or> scaler no_state = None"
    by (simp add: no_state_def)
  have s: "sp_state (demo_predictor no_state 100) = no_state" "sp_state offline_predictor = no_state"
    by (simp_all add: demo_predictor_def offline_predictor_def)
  have o: "fst (fetch_features offline_predictor ''s1'' ''p1'' None) = ([], [], zero_features)"
    by (simp add: fetch_features_def offline_predictor_def)
  have z: "get_feature zero_features ''avg_daily_consumption'' 0 = 0"
    by (simp add: zero_features_def FEATURE_NAMES_def get_feature_def)
  have "\<exists>r. predict_from no_state ''s3'' ''p3'' (''Store 3'', ''Soap'', fs) = Inr r
        \<and> probability r = dec 95 100 \<and> dec 95 100 \<le> probability r
        \<and> predict (demo_predictor no_state 100) ''s3'' ''p3'' None = Inr r"
    using stockout_zero_stock [OF n, of "''s3''" "''p3''" "''Store 3''" "''Soap''" fs
        "demo_predictor no_state 100" None]
    by (simp add: f g s)
  then obtain r where "predict (demo_predictor no_state 100) ''s3'' ''p3'' None = Inr r"
    "probability r = dec 95 100" "dec 95 100 \<le> probability r"
    by (elim exE conjE) (rule that)
  then have a: "\<exists>r. predict (demo_predictor no_state 100) ''s3'' ''p3'' None = Inr r
        \<and> probability r = dec 95 100 \<and> probability r \<ge> dec 95 100"
    by (intro exI conjI)
  have "\<exists>r. predict_from no_state ''s1'' ''p1'' ([], [], zero_features) = Inr r
        \<and> probability r = dec 1 10
        \<and> predict offline_predictor ''s1'' ''p1'' None = Inr r"
    using stockout_zero_stock [OF n, of "''s1''" "''p1''" "[]" "[]" zero_features
        offline_predictor None]
    by (simp add: o z s)
  then obtain r' where "predict offline_predictor ''s1'' ''p1'' None = Inr r'"
    "probability r' = dec 1 10"
    by (elim exE conjE) (rule that)
  then have b: "\<exists>r. predict offline_predictor ''s1'' ''p1'' None = Inr r \<and> probability r = dec 1 10"
    by (intro exI conjI)
  from a b show ?thesis ..
qed

subsection \<open>The scan loop\<close>

lemma scan_loop_map_filter:
  "scan_loop self cid combos (acc, lg) =
     (acc @ List.map_filter (alert_of self cid) combos,
      lg @ concat (map (records_of self cid) combos))"
proof (induction combos arbitrary: acc lg)
  case Nil
  show ?case by (simp add: List.map_filter_simps)
next
  case (Cons c combos)
  obtain sid pid where c: "c = (sid, pid)" by (cases c)
  show ?case
    by (cases "predict self sid pid (Some cid)")
       (simp_all add: c Cons.IH alert_of_def records_of_def List.map_filter_simps)
qed

lemma alert_of_above_threshold:
  "alert_of self cid c = Some a \<Longrightarrow> STOCKOUT_THRESHOLD (sp_settings self) \<le> probability a"
  by (auto simp: alert_of_def split: sum.splits if_splits)

lemma sort_key_neg_descending:
  "sorted_wrt (\<lambda>x y. f x \<ge> f y) (sort_key (\<lambda>a. - f a) xs)" for f :: "'a \<Rightarrow> real"
proof -
  have "sorted (map (\<lambda>a. - f a) (sort_key (\<lambda>a. - f a) xs))"
    by (rule sorted_sort_key)
  then show ?thesis
    by (simp add: sorted_map)
qed

lemma scan_all_eq:
  assumes "sp_db self = Some d"
    and "q_combos d cid (STOCKOUT_SCAN_BATCH_SIZE (sp_settings self) * 100) = Inr combos"
  shows "scan_all self cid =
     (Inr \<lparr>company_id = cid, total_scanned = length combos,
           alerts = sort_key (\<lambda>a. - probability a) (List.map_filter (alert_of self cid) combos)\<rparr>,
      concat (map (records_of self cid) combos))"
  using assms by (simp add: scan_all_def scan_loop_map_filter)


lemma scan_demo_rule:
  "scan_all (demo_predictor no_state 100) ''acme'' =
     (Inr \<lparr>company_id = ''acme'', total_scanned = 3, alerts = [soap_alert, tea_alert]\<rparr>,
      [Warning ''Failed to fetch consumption data for %s/%s.'' [''s1'', ''p1''],
       Warning ''Failed to fetch consumption data for %s/%s.'' [''s2'', ''p2''],
       Warning ''Failed to fetch consumption data for %s/%s.'' [''s3'', ''p3'']])"
proof -
  obtain r where r: "predict (demo_predictor no_state 100) ''s1'' ''p1'' (Some ''acme'') = Inr r"
    "probability r = dec 1 10"
    using predict_rice [of "Some ''acme''"] by (elim exE conjE) (rule that)
  show ?thesis
    unfolding scan_all_eq [OF demo_predictor_sel(1) demo_predictor_sel(3)]
    by (simp add: List.map_filter_simps alert_of_def records_of_def r predict_tea predict_soap
        predict_log_demo demo_predictor_sel alert_probability dec_order neg_dec_order)
qed

lemma scan_demo_forest:
  "scan_all (demo_predictor forest_state 100) ''acme'' =
     (Inr \<lparr>company_id = ''acme'', total_scanned = 3, alerts = [soap_alert, tea_alert]\<rparr>,
      [Warning ''Failed to fetch consumption data for %s/%s.'' [''s1'', ''p1''],
       Warning ''Failed to fetch consumption data for %s/%s.'' [''s2'', ''p2''],
       Warning ''Failed to fetch consumption data for %s/%s.'' [''s3'', ''p3'']])"
proof -
  obtain r where r: "predict (demo_predictor forest_state 100) ''s1'' ''p1'' (Some ''acme'') = Inr r"
    "probability r = dec 1 10"
    using forest_rice [of "Some ''acme''"] by (elim exE conjE) (rule that)
  show ?thesis
    unfolding scan_all_eq [OF demo_predictor_sel(1) demo_predictor_sel(3)]
    by (simp add: List.map_filter_simps alert_of_def records_of_def r forest_tea forest_soap
        predict_log_demo demo_predictor_sel alert_probability dec_order neg_dec_order)
qed

lemma scan_demo_overflow:
  "scan_all (demo_predictor forest_state huge_stock) ''acme'' =
     (Inr \<lparr>company_id = ''acme'', total_scanned = 3, alerts = [soap_alert, tea_alert]\<rparr>,
      [Warning ''Failed to fetch consumption data for %s/%s.'' [''s1'', ''p1''],
       Warning ''Stockout prediction failed for store=%s product=%s.'' [''s1'', ''p1''],
       Warning ''Failed to fetch consumption data for %s/%s.'' [''s2'', ''p2''],
       Warning ''Failed to fetch consumption data for %s/%s.'' [''s3'', ''p3'']])"
  unfolding scan_all_eq [OF demo_predictor_sel(1) demo_predictor_sel(3)]
  by (simp add: List.map_filter_simps alert_of_def records_of_def forest_rice_overflow forest_tea
      forest_soap predict_log_demo demo_predictor_sel alert_probability dec_order neg_dec_order)

text \<open>
  C10: every alert of a scan result is at or above the configured threshold, the
  alerts are in non-increasing order of probability, and \<open>total_scanned\<close> counts every
  pair of the query, also those whose prediction stayed below the threshold.
\<close>

theorem scan_all_alerts_above_threshold_sorted:
  assumes "fst (scan_all self cid) = Inr r"
  shows "(\<forall>a \<in> set (alerts r). STOCKOUT_THRESHOLD (sp_settings self) \<le> probability a)
       \<and> sorted_wrt (\<lambda>x y. probability x \<ge> probability y) (alerts r)
       \<and> (\<forall>d combos. sp_db self = Some d
             \<and> q_combos d cid (STOCKOUT_SCAN_BATCH_SIZE (sp_settings self) * 100) = Inr combos
            \<longrightarrow> total_scanned r = length combos
              \<and> (\<forall>c \<in> set combos. \<forall>p. predict self (fst c) (snd c) (Some cid) = Inr p
                    \<and> probability p < STOCKOUT_THRESHOLD (sp_settings self)
                   \<longrightarrow> p \<notin> set (alerts r)))"
proof (cases "sp_db self")
  case None
  with assms show ?thesis
    by (auto simp: scan_all_def)
next
  case (Some d)
  show ?thesis
  proof (cases "q_combos d cid (STOCKOUT_SCAN_BATCH_SIZE (sp_settings self) * 100)")
    case (Inl e)
    with Some assms show ?thesis
      by (simp add: scan_all_def)
  next
    case (Inr combos)
    with Some assms
    have r: "alerts r = sort_key (\<lambda>a. - probability a) (List.map_filter (alert_of self cid) combos)"
      and n: "total_scanned r = length combos"
      by (auto simp: scan_all_eq)
    have above: "\<forall>a \<in> set (alerts r). STOCKOUT_THRESHOLD (sp_settings self) \<le> probability a"
      by (auto simp: r List.map_filter_def dest: alert_of_above_threshold)
    have "sorted_wrt (\<lambda>x y. probability x \<ge> probability y) (alerts r)"
      unfolding r by (rule sort_key_neg_descending)
    with above n Some Inr show ?thesis
      by fastforce
  qed
qed

theorem scan_all_alerts_above_threshold_sorted_witness:
  "fst (scan_all (demo_predictor no_state 100) ''acme'')
     = Inr \<lparr>company_id = ''acme'', total_scanned = 3, alerts = [soap_alert, tea_alert]\<rparr>
   \<and> dec 7 10 \<le> probability soap_alert \<and> dec 7 10 \<le> probability tea_alert
   \<and> sorted_wrt (\<lambda>x y. probability x \<ge> probability y) [soap_alert, tea_alert]
   \<and> length [(''s1'', ''p1''), (''s2'', ''p2''), (''s3'', ''p3'')] = (3::nat)"
proof -
  have "fst (scan_all (demo_predictor no_state 100) ''acme'')
      = Inr \<lparr>company_id = ''acme'', total_scanned = 3, alerts = [soap_alert, tea_alert]\<rparr>"
    by (simp add: scan_demo_rule)
  from this scan_all_alerts_above_threshold_sorted [OF this] show ?thesis
    by (simp add: demo_predictor_sel)
qed


text \<open>
  C5, as stated, fails: the scan result has no error list. With the trained forest the
  prediction for the first pair raises when its stock figure is too large for the
  forest's input type; the scan returns the very result of the scan in which that pair
  has 100 units and stays below the threshold. Only the log differs.
\<close>

theorem scan_all_error_list_counterexample:
  "predict (demo_predictor forest_state huge_stock) ''s1'' ''p1'' (Some ''acme'') = Inl ValueError
   \<and> fst (scan_all (demo_predictor forest_state huge_stock) ''acme'')
       = Inr \<lparr>company_id = ''acme'', total_scanned = 3, alerts = [soap_alert, tea_alert]\<rparr>
   \<and> fst (scan_all (demo_predictor forest_state huge_stock) ''acme'')
       = fst (scan_all (demo_predictor forest_state 100) ''acme'')
   \<and> snd (scan_all (demo_predictor forest_state huge_stock) ''acme'')
       = [Warning ''Failed to fetch consumption data for %s/%s.'' [''s1'', ''p1''],
          Warning ''Stockout prediction failed for store=%s product=%s.'' [''s1'', ''p1''],
          Warning ''Failed to fetch consumption data for %s/%s.'' [''s2'', ''p2''],
          Warning ''Failed to fetch consumption data for %s/%s.'' [''s3'', ''p3'']]"
  by (simp add: scan_demo_forest scan_demo_overflow forest_rice_overflow)

text \<open>
  C5, amended: when the pair query succeeds the scan returns a result, whatever
  predictions raise. Each raising prediction is caught and logged with its pair, in
  scan order, after the records the prediction itself logged; \<open>total_scanned\<close> counts
  all pairs; the alerts are the sorted predictions of the pairs that did not raise and
  reached the threshold. The result carries no error list: failures are in the log
  only.
\<close>

theorem scan_all_continues_after_failure:
  assumes "sp_db self = Some d"
    and "q_combos d cid (STOCKOUT_SCAN_BATCH_SIZE (sp_settings self) * 100) = Inr combos"
  shows "\<exists>r. fst (scan_all self cid) = Inr r
       \<and> total_scanned r = length combos
       \<and> alerts r = sort_key (\<lambda>a. - probability a) (List.map_filter (alert_of self cid) combos)
       \<and> snd (scan_all self cid) = concat (map (records_of self cid) combos)"
  using assms by (simp add: scan_all_eq)

theorem scan_all_continues_after_failure_witness:
  "\<exists>r. fst (scan_all (demo_predictor forest_state huge_stock) ''acme'') = Inr r
       \<and> total_scanned r = 3
       \<and> alerts r = [soap_alert, tea_alert]
       \<and> snd (scan_all (demo_predictor forest_state huge_stock) ''acme'')
           = [Warning ''Failed to fetch consumption data for %s/%s.'' [''s1'', ''p1''],
              Warning ''Stockout prediction failed for store=%s product=%s.'' [''s1'', ''p1''],
              Warning ''Failed to fetch consumption data for %s/%s.'' [''s2'', ''p2''],
              Warning ''Failed to fetch consumption data for %s/%s.'' [''s3'', ''p3'']]"
proof -
  have db: "sp_db (demo_predictor forest_state huge_stock) = Some (demo_stock_db huge_stock)"
    by (simp add: demo_predictor_sel)
  have q: "q_combos (demo_stock_db huge_stock) ''acme''
             (STOCKOUT_SCAN_BATCH_SIZE (sp_settings (demo_predictor forest_state huge_stock)) * 100)
           = Inr [(''s1'', ''p1''), (''s2'', ''p2''), (''s3'', ''p3'')]"
    by (simp add: demo_predictor_sel)
  from scan_all_continues_after_failure [OF db q] show ?thesis
    by (simp add: List.map_filter_simps alert_of_def records_of_def forest_rice_overflow
        forest_tea forest_soap predict_log_demo demo_predictor_sel alert_probability
        dec_order neg_dec_order numeral_3_eq_3)
qed

section \<open>Route optimisation\<close>

lemma extract_tour: "extract_route 3 0 Suc 0 [] = Some [0, 1, 2, 0]"
proof -
  have "extract_route 3 0 Suc 0 [] = extract_route 3 0 Suc 1 [0]"
    by (subst extract_route.simps) (simp add: IsEnd_def IndexToNode_def)
  also have "\<dots> = extract_route 3 0 Suc 2 [0, 1]"
    by (subst extract_route.simps) (simp add: IsEnd_def IndexToNode_def numeral_2_eq_2)
  also have "\<dots> = extract_route 3 0 Suc 3 [0, 1, 2]"
    by (subst extract_route.simps) (simp add: IsEnd_def IndexToNode_def numeral_3_eq_3 numeral_2_eq_2)
  also have "\<dots> = Some [0, 1, 2, 0]"
    by (subst extract_route.simps) (simp add: IsEnd_def IndexToNode_def)
  finally show ?thesis .
qed

lemma length_build_distance_matrix: "length (build_distance_matrix nodes) = length nodes"
  by (simp add: build_distance_matrix_def)

lemma solve_tour:
  "solve_tsp (ro_solver solving_optimizer) (build_distance_matrix [store_a, store_b, store_c]) 0
     = Some (Inr [0, 1, 2, 0])"
proof -
  have n: "length (build_distance_matrix [store_a, store_b, store_c]) = 3"
    by (simp add: length_build_distance_matrix)
  show ?thesis
    unfolding solve_tsp_def Let_def n
    by (simp add: solving_optimizer_def Start_def extract_tour)
qed

lemma solve_fails:
  "solve_tsp (ro_solver failing_optimizer) dm 0 = Some (Inl RuntimeError)"
  by (simp add: solve_tsp_def failing_optimizer_def Let_def)

lemma fetch_three:
  "fetch_store_locations solving_optimizer [''a'', ''b'', ''c''] None = Inr [store_a, store_b, store_c]"
  "fetch_store_locations failing_optimizer [''a'', ''b'', ''c''] None = Inr [store_a, store_b, store_c]"
  by (simp_all add: fetch_store_locations_def solving_optimizer_def failing_optimizer_def)

lemma optimize_solved:
  "optimize solving_optimizer ''rep1'' [''a'', ''b'', ''c''] None None =
     Some (Inr (build_result ''rep1'' [store_a, store_b, store_c]
                  (build_distance_matrix [store_a, store_b, store_c]) None [0, 1, 2, 0]), [])"
  by (simp add: optimize_def fetch_three start_node_def build_nodes_def solve_tour Let_def)

lemma optimize_fallback:
  "optimize failing_optimizer ''rep1'' [''a'', ''b'', ''c''] None None =
     Some (Inr (build_result ''rep1'' [store_a, store_b, store_c]
                  (build_distance_matrix [store_a, store_b, store_c]) None
                  (nearest_neighbour (build_distance_matrix [store_a, store_b, store_c]) 0)),
           [Warning ''OR-Tools TSP solver failed, using nearest-neighbour heuristic.'' []])"
  by (simp add: optimize_def fetch_three start_node_def build_nodes_def solve_fails Let_def)

subsection \<open>The paths that return every stop once\<close>

lemma find_nearest_Some:
  "find_nearest dm current visited js best = Some (j, d) \<Longrightarrow>
     best = Some (j, d) \<or> (j \<in> set js \<and> j \<notin> set visited)"
  by (induction js arbitrary: best) (auto split: if_splits)

lemma find_nearest_keeps: "best \<noteq> None \<Longrightarrow> find_nearest dm current visited js best \<noteq> None"
  by (induction js arbitrary: best) auto

lemma find_nearest_finds:
  "\<exists>j \<in> set js. j \<notin> set visited \<Longrightarrow> find_nearest dm current visited js None \<noteq> None"
proof (induction js)
  case Nil
  then show ?case by simp
next
  case (Cons j js)
  show ?case
  proof (cases "j \<in> set visited")
    case True
    with Cons show ?thesis by auto
  next
    case False
    then show ?thesis
      using find_nearest_keeps [of "Some (j, dm ! current ! j)" dm current visited js] by simp
  qed
qed

lemma unvisited_exists:
  assumes "distinct visited" "set visited \<subseteq> {0..<n}" "length visited < n"
  shows "\<exists>j \<in> set [0..<n]. j \<notin> set visited"
proof (rule ccontr)
  assume "\<not> (\<exists>j \<in> set [0..<n]. j \<notin> set visited)"
  then have "{0..<n} \<subseteq> set visited" by auto
  then have "card {0..<n} \<le> card (set visited)"
    by (intro card_mono) simp_all
  with assms show False
    by (simp add: distinct_card)
qed

lemma nn_loop_permutation:
  assumes "distinct visited" "set visited = set route" "distinct route" "set route \<subseteq> {0..<n}"
  shows "distinct (nn_loop dm n visited route current)
       \<and> set (nn_loop dm n visited route current) = {0..<n}"
  using assms
proof (induction dm n visited route current rule: nn_loop.induct)
  case (1 dm n visited route current)
  show ?case
  proof (cases "length visited < n")
    case False
    from "1.prems" have c: "card (set route) = length visited"
      by (metis distinct_card)
    from "1.prems" have "card (set route) \<le> card {0..<n}"
      by (intro card_mono) simp_all
    with False c have "card (set route) = card {0..<n}"
      by simp
    with "1.prems" have "set route = {0..<n}"
      by (intro card_subset_eq) simp_all
    with False "1.prems" show ?thesis
      by (simp add: nn_loop.simps [of dm n visited route current])
  next
    case True
    from "1.prems" True have "\<exists>j \<in> set [0..<n]. j \<notin> set visited"
      by (intro unvisited_exists) simp_all
    then obtain nearest d where f: "find_nearest dm current visited [0..<n] None = Some (nearest, d)"
      using find_nearest_finds [of "[0..<n]" visited dm current] by fastforce
    from find_nearest_Some [OF f] have j: "nearest \<in> set [0..<n]" "nearest \<notin> set visited"
      by simp_all
    have "distinct (nn_loop dm n (List.insert nearest visited) (route @ [nearest]) nearest)
       \<and> set (nn_loop dm n (List.insert nearest visited) (route @ [nearest]) nearest) = {0..<n}"
      using "1.prems" j
      by (intro "1.IH" [OF True f refl]) auto
    with True f show ?thesis
      by (simp add: nn_loop.simps [of dm n visited route current])
  qed
qed

lemma nearest_neighbour_permutation:
  assumes "0 < length dm"
  shows "mset (nearest_neighbour dm 0) = mset [0..<length dm]"
proof -
  have "distinct (nearest_neighbour dm 0) \<and> set (nearest_neighbour dm 0) = {0..<length dm}"
    unfolding nearest_neighbour_def using assms by (intro nn_loop_permutation) auto
  then show ?thesis
    by (metis atLeastLessThan_upt distinct_upt set_eq_iff_mset_eq_distinct)
qed

lemma route_stores_no_start:
  assumes "mset route = mset [0..<length nodes]"
  shows "mset (route_stores nodes None route) = mset nodes"
proof -
  have "mset (map (\<lambda>idx. nodes ! idx) route) = image_mset (\<lambda>idx. nodes ! idx) (mset route)"
    by simp
  also have "\<dots> = mset (map (\<lambda>idx. nodes ! idx) [0..<length nodes])"
    by (simp add: assms)
  also have "\<dots> = mset nodes"
    by (simp add: map_nth)
  finally show ?thesis
    by (simp add: route_stores_def)
qed

lemma route_stores_start:
  assumes "mset route = mset [0..<Suc (length stores)]"
  shows "mset (route_stores (s # stores) (Some s) route) = mset stores"
proof -
  have f: "filter (\<lambda>idx. idx \<noteq> 0) [0..<Suc (length stores)] = [Suc 0..<Suc (length stores)]"
    by (simp add: upt_conv_Cons del: upt_Suc)
  have "mset (filter (\<lambda>idx. idx \<noteq> 0) route) = filter_mset (\<lambda>idx. idx \<noteq> 0) (mset route)"
    by simp
  also have "\<dots> = mset (filter (\<lambda>idx. idx \<noteq> 0) [0..<Suc (length stores)])"
    by (simp add: assms del: upt_Suc)
  finally have m: "mset (filter (\<lambda>idx. idx \<noteq> 0) route) = mset [Suc 0..<Suc (length stores)]"
    by (simp only: f)
  have "mset (map (\<lambda>idx. (s # stores) ! idx) (filter (\<lambda>idx. idx \<noteq> 0) route))
      = image_mset (\<lambda>idx. (s # stores) ! idx) (mset (filter (\<lambda>idx. idx \<noteq> 0) route))"
    by simp
  also have "\<dots> = mset (map (\<lambda>idx. (s # stores) ! idx) [Suc 0..<Suc (length stores)])"
    by (simp only: m mset_map)
  also have "map (\<lambda>idx. (s # stores) ! idx) [Suc 0..<Suc (length stores)]
      = map (\<lambda>idx. stores ! idx) [0..<length stores]"
    by (simp only: map_Suc_upt [symmetric] map_map o_def nth_Cons_Suc)
  also have "\<dots> = stores"
    by (rule map_nth)
  finally show ?thesis
    by (simp add: route_stores_def)
qed

lemma build_nodes_cases:
  "build_nodes stores None = stores"
  "build_nodes stores (Some s) = s # stores"
  by (simp_all add: build_nodes_def)

text \<open>
  On the path for one or two stores and on the greedy fallback path the result lists
  every fetched store exactly once, with or without a start location; the status is
  optimal on both.
\<close>

lemma optimize_without_solver_permutation:
  assumes ids: "store_ids \<noteq> []"
    and fetched: "fetch_store_locations self store_ids company = Inr stores"
    and some: "stores \<noteq> []"
    and path: "length stores \<le> 2
      \<or> solve_tsp (ro_solver self)
           (build_distance_matrix (build_nodes stores (start_node start_loc))) 0 = Some (Inl e)"
  shows "\<exists>r lg. optimize self rep store_ids start_loc company = Some (Inr r, lg)
       \<and> mset (ordered_stores r) = mset stores \<and> optimization_status r = ''optimal''"
proof (cases "length stores \<le> 2")
  case True
  with ids fetched some show ?thesis
    by (simp add: optimize_def direct_route_def Let_def)
next
  case False
  with path have failed: "solve_tsp (ro_solver self)
      (build_distance_matrix (build_nodes stores (start_node start_loc))) 0 = Some (Inl e)"
    by simp
  let ?nodes = "build_nodes stores (start_node start_loc)"
  let ?route = "nearest_neighbour (build_distance_matrix ?nodes) 0"
  have "0 < length ?nodes"
    using some by (cases "start_node start_loc") (simp_all add: build_nodes_cases)
  then have perm: "mset ?route = mset [0..<length ?nodes]"
    using nearest_neighbour_permutation [of "build_distance_matrix ?nodes"]
    by (simp add: build_distance_matrix_def)
  have "mset (route_stores ?nodes (start_node start_loc) ?route) = mset stores"
  proof (cases "start_node start_loc")
    case None
    with perm show ?thesis
      by (simp add: build_nodes_cases route_stores_no_start)
  next
    case (Some s)
    with perm show ?thesis
      by (simp add: build_nodes_cases route_stores_start del: upt_Suc)
  qed
  with ids fetched some False failed show ?thesis
    by (simp add: optimize_def build_result_def Let_def)
qed

text \<open>
  On the solver path the extracted route is a closed tour: the depot, the other nodes
  in some order, the depot again. With a start location both depot entries are
  dropped and every store is listed once; without one the first store is listed at
  both ends.
\<close>

lemma optimize_solver_tour:
  assumes ids: "store_ids \<noteq> []"
    and fetched: "fetch_store_locations self store_ids company = Inr stores"
    and many: "2 < length stores"
    and solved: "solve_tsp (ro_solver self)
        (build_distance_matrix (build_nodes stores (start_node start_loc))) 0
        = Some (Inr (0 # middle @ [0]))"
    and tour: "mset middle = mset [Suc 0..<length (build_nodes stores (start_node start_loc))]"
  shows "\<exists>r. optimize self rep store_ids start_loc company = Some (Inr r, [])
       \<and> mset (ordered_stores r)
           = (if start_loc = None then add_mset (stores ! 0) (mset stores) else mset stores)"
proof -
  let ?start = "start_node start_loc"
  let ?nodes = "build_nodes stores ?start"
  from many have ne: "stores \<noteq> []" by auto
  have res: "optimize self rep store_ids start_loc company
      = Some (Inr (build_result rep ?nodes (build_distance_matrix ?nodes) ?start
                     (0 # middle @ [0])), [])"
    using ids fetched many ne solved by (simp add: optimize_def Let_def)
  have img: "image_mset f (mset middle) = mset (map f [Suc 0..<length ?nodes])" for f :: "nat \<Rightarrow> StoreLocation"
    by (simp only: tour mset_map)
  have "mset (route_stores ?nodes ?start (0 # middle @ [0]))
      = (if start_loc = None then add_mset (stores ! 0) (mset stores) else mset stores)"
  proof (cases start_loc)
    case None
    then have n: "?start = None" "?nodes = stores"
      by (simp_all add: start_node_def build_nodes_cases)
    have "mset stores = mset (map (\<lambda>idx. stores ! idx) [0..<length stores])"
      by (simp add: map_nth)
    also have "\<dots> = add_mset (stores ! 0) (mset (map (\<lambda>idx. stores ! idx) [Suc 0..<length stores]))"
      using ne by (simp add: upt_conv_Cons del: upt_Suc)
    finally have s: "mset stores
        = add_mset (stores ! 0) (mset (map (\<lambda>idx. stores ! idx) [Suc 0..<length stores]))" .
    have "mset (route_stores stores None (0 # middle @ [0]))
        = add_mset (stores ! 0) (add_mset (stores ! 0) (image_mset (\<lambda>idx. stores ! idx) (mset middle)))"
      by (simp add: route_stores_def)
    also have "\<dots> = add_mset (stores ! 0) (mset stores)"
      using img [of "\<lambda>idx. stores ! idx"] s by (simp add: n build_nodes_cases)
    finally show ?thesis
      using None n by simp
  next
    case (Some loc)
    then obtain s where st: "?start = Some s" and nd: "?nodes = s # stores"
      by (cases loc) (simp add: start_node_def build_nodes_cases)
    from tour have "set middle = set [Suc 0..<length ?nodes]"
      by (rule mset_eq_setD)
    then have "filter (\<lambda>idx. idx \<noteq> 0) middle = middle"
      by (intro filter_True) auto
    then have "mset (route_stores (s # stores) (Some s) (0 # middle @ [0]))
        = image_mset (\<lambda>idx. (s # stores) ! idx) (mset middle)"
      by (simp add: route_stores_def)
    also have "\<dots> = mset (map (\<lambda>idx. (s # stores) ! idx) [Suc 0..<Suc (length stores)])"
      using img [of "\<lambda>idx. (s # stores) ! idx"]
      by (simp add: nd st build_nodes_cases del: upt_Suc)
    also have "map (\<lambda>idx. (s # stores) ! idx) [Suc 0..<Suc (length stores)]
        = map (\<lambda>idx. stores ! idx) [0..<length stores]"
      by (simp only: map_Suc_upt [symmetric] map_map o_def nth_Cons_Suc)
    also have "\<dots> = stores"
      by (rule map_nth)
    finally show ?thesis
      using Some st nd by simp
  qed
  with res show ?thesis
    by (simp add: build_result_def Let_def)
qed

subsection \<open>The status flag and the repeated first store\<close>

text \<open>
  C1 at the failing input: three stores, no start location, the solver succeeds. The
  extracted route ends with the depot node again, the depot is the first store, and
  the first store is listed twice.
\<close>

theorem optimize_solver_path_repeats_first_store:
  "\<exists>r. optimize solving_optimizer ''rep1'' [''a'', ''b'', ''c''] None None = Some (Inr r, [])
       \<and> ordered_stores r = [store_a, store_b, store_c, store_a]
       \<and> \<not> distinct (ordered_stores r)
       \<and> mset (ordered_stores r) \<noteq> mset [store_a, store_b, store_c]"
proof -
  have "route_stores [store_a, store_b, store_c] None [0, 1, 2, 0]
      = [store_a, store_b, store_c, store_a]"
    by (simp add: route_stores_def)
  then have "ordered_stores (build_result ''rep1'' [store_a, store_b, store_c]
      (build_distance_matrix [store_a, store_b, store_c]) None [0, 1, 2, 0])
      = [store_a, store_b, store_c, store_a]"
    by (simp add: build_result_def Let_def)
  moreover have "mset [store_a, store_b, store_c, store_a] \<noteq> mset [store_a, store_b, store_c]"
  proof
    assume "mset [store_a, store_b, store_c, store_a] = mset [store_a, store_b, store_c]"
    then have "size (mset [store_a, store_b, store_c, store_a]) = size (mset [store_a, store_b, store_c])"
      by (rule arg_cong)
    then show False by simp
  qed
  ultimately show ?thesis
    by (simp add: optimize_solved)
qed

text \<open>
  C4 at the failing input: three stores, the solver finds no solution. The greedy
  fallback runs, a warning is logged, no exception reaches the caller, and the result
  carries the status optimal, the very status of the run in which the solver succeeds.
\<close>

theorem optimize_fallback_reports_optimal:
  "(\<exists>r. optimize failing_optimizer ''rep1'' [''a'', ''b'', ''c''] None None
          = Some (Inr r, [Warning ''OR-Tools TSP solver failed, using nearest-neighbour heuristic.'' []])
        \<and> optimization_status r = ''optimal'')
   \<and> (\<exists>r. optimize solving_optimizer ''rep1'' [''a'', ''b'', ''c''] None None = Some (Inr r, [])
        \<and> optimization_status r = ''optimal'')"
  by (simp add: optimize_fallback optimize_solved build_result_def Let_def)

end
